theory Spec2Isabelle
  imports Main
begin

section \<open>JavaScript values the service computes with\<close>

text \<open>
  A JavaScript \<open>number\<close> that holds an integer, or \<open>NaN\<close> (what \<open>parseInt\<close> returns on a
  header without digits). Integers are kept exact; the service only handles counters,
  identifiers and millisecond timestamps, all far below \<open>2^53\<close>.
\<close>

datatype jsnumber = NaN | Finite int

text \<open>Comparisons with \<open>NaN\<close> are false; arithmetic with \<open>NaN\<close> is \<open>NaN\<close>.\<close>

fun js_le :: "jsnumber \<Rightarrow> jsnumber \<Rightarrow> bool" where
  "js_le (Finite a) (Finite b) = (a \<le> b)"
| "js_le _ _ = False"

fun js_gt :: "jsnumber \<Rightarrow> jsnumber \<Rightarrow> bool" where
  "js_gt (Finite a) (Finite b) = (a > b)"
| "js_gt _ _ = False"

fun js_sub :: "jsnumber \<Rightarrow> jsnumber \<Rightarrow> jsnumber" where
  "js_sub (Finite a) (Finite b) = Finite (a - b)"
| "js_sub _ _ = NaN"

fun js_mul :: "jsnumber \<Rightarrow> jsnumber \<Rightarrow> jsnumber" where
  "js_mul (Finite a) (Finite b) = Finite (a * b)"
| "js_mul _ _ = NaN"

text \<open>\<open>Math.ceil(x / 1000)\<close> on an integer \<open>x\<close>.\<close>

fun ceil_div_1000 :: "jsnumber \<Rightarrow> jsnumber" where
  "ceil_div_1000 (Finite a) = Finite (- ((- a) div 1000))"
| "ceil_div_1000 NaN = NaN"

subsection \<open>Numbers to strings: template literals\<close>

definition digit_char :: "nat \<Rightarrow> char" where
  "digit_char d = ''0123456789'' ! (d mod 10)"

fun show_nat :: "nat \<Rightarrow> string" where
  "show_nat n = (if n < 10 then [digit_char n] else show_nat (n div 10) @ [digit_char (n mod 10)])"

declare show_nat.simps [simp del]

definition show_int :: "int \<Rightarrow> string" where
  "show_int i = (if i < 0 then CHR ''-'' # show_nat (nat (- i)) else show_nat (nat i))"

subsection \<open>Strings to numbers: \<open>parseInt(s, 10)\<close>\<close>

text \<open>
  \<open>parseInt\<close> with radix 10 skips leading white space, reads an optional sign, then the
  longest run of decimal digits; without a digit the result is \<open>NaN\<close>. Header values are
  byte strings, so the white space characters are the ones below \<open>0x100\<close>.
\<close>

definition is_white_space :: "char \<Rightarrow> bool" where
  "is_white_space c = (c \<in> set [CHR 0x09, CHR 0x0A, CHR 0x0B, CHR 0x0C, CHR 0x0D, CHR 0x20, CHR 0xA0])"

definition is_digit :: "char \<Rightarrow> bool" where
  "is_digit c = (c \<in> set ''0123456789'')"

definition digit_value :: "char \<Rightarrow> nat" where
  "digit_value c = of_char c - 48"

definition digits_value :: "string \<Rightarrow> nat" where
  "digits_value z = foldl (\<lambda>a c. 10 * a + digit_value c) 0 z"

definition parseInt :: "string \<Rightarrow> jsnumber" where
  "parseInt s =
     (let t = dropWhile is_white_space s;
          sign = (case t of c # _ \<Rightarrow> if c = CHR ''-'' then - 1 else 1 | [] \<Rightarrow> (1::int));
          u = (case t of c # r \<Rightarrow> if c = CHR ''-'' \<or> c = CHR ''+'' then r else t | [] \<Rightarrow> t);
          z = takeWhile is_digit u
      in if z = [] then NaN else Finite (sign * int (digits_value z)))"

text \<open>Truthiness of a string: only the empty string is falsy.\<close>

definition truthy_string :: "string \<Rightarrow> bool" where
  "truthy_string s = (s \<noteq> [])"

text \<open>
  A value of type \<open>unknown\<close> that came out of \<open>JSON.parse\<close>, as far as its truthiness
  goes: \<open>null\<close>, \<open>false\<close>, \<open>0\<close> and the empty string are falsy, objects and arrays are truthy.
\<close>

datatype json = JNull | JBool bool | JNumber int | JString string | JArray "json list"
  | JObject "(string \<times> json) list"

fun truthy :: "json \<Rightarrow> bool" where
  "truthy JNull = False"
| "truthy (JBool b) = b"
| "truthy (JNumber n) = (n \<noteq> 0)"
| "truthy (JString s) = truthy_string s"
| "truthy (JArray _) = True"
| "truthy (JObject _) = True"

section \<open>The cache\<close>

text \<open>\<open>CACHE_TTL_MS = 5 * 60 * 1000\<close>.\<close>

definition CACHE_TTL_MS :: int where
  "CACHE_TTL_MS = 5 * 60 * 1000"

record 'v CacheEntry =
  data :: 'v
  expiresAt :: int

text \<open>
  The class \<open>Cache\<close> holds one \<open>Map\<close> from keys to entries. Each method takes the reading
  of \<open>Date.now()\<close> it makes as its first argument and returns the map it leaves.
\<close>

type_synonym 'v Cache = "string \<rightharpoonup> 'v CacheEntry"

definition cache_get :: "int \<Rightarrow> string \<Rightarrow> 'v Cache \<Rightarrow> 'v option \<times> 'v Cache" where
  "cache_get now key store =
     (case store key of
        None \<Rightarrow> (None, store)
      | Some entry \<Rightarrow>
          if now > expiresAt entry then (None, store(key := None))
          else (Some (data entry), store))"

definition cache_set :: "int \<Rightarrow> string \<Rightarrow> 'v \<Rightarrow> 'v Cache \<Rightarrow> 'v Cache" where
  "cache_set now key d store = store(key \<mapsto> \<lparr>data = d, expiresAt = now + CACHE_TTL_MS\<rparr>)"

definition cache_clear :: "'v Cache \<Rightarrow> 'v Cache" where
  "cache_clear store = Map.empty"

section \<open>The rate limit state\<close>

record RateLimitInfo =
  remaining :: jsnumber
  reset :: jsnumber
  limit :: jsnumber

text \<open>The module's initial value, for a process started at time \<open>t0\<close>.\<close>

definition initial_rateLimitInfo :: "int \<Rightarrow> RateLimitInfo" where
  "initial_rateLimitInfo t0 =
     \<lparr>remaining = Finite 5000, reset = Finite (t0 + 3600000), limit = Finite 5000\<rparr>"

section \<open>Wire shapes and normalized shapes\<close>

text \<open>
  Each interface is a record. A field keeps its name behind a prefix for its interface
  (\<open>issue_id\<close> for \<open>GitHubIssue.id\<close>), since several interfaces share field names.
  A field typed \<open>T | null\<close> or declared optional is an \<open>option\<close>.
\<close>

record GitHubRepository =
  repo_id :: int
  repo_name :: string
  repo_full_name :: string
  repo_description :: "string option"
  repo_html_url :: string
  repo_private :: bool
  repo_default_branch :: string

record GitHubUser =
  user_login :: string
  user_avatar_url :: string

record GitHubLabel =
  label_name :: string
  label_color :: string

record GitHubIssue =
  issue_id :: int
  issue_number :: int
  issue_title :: string
  issue_html_url :: string
  issue_state :: string
  issue_created_at :: string
  issue_updated_at :: string
  issue_user :: "GitHubUser option"
  issue_labels :: "GitHubLabel list"
  issue_assignees :: "GitHubUser list"
  issue_pull_request :: "json option"

record GitHubPullRequest =
  pr_id :: int
  pr_number :: int
  pr_title :: string
  pr_html_url :: string
  pr_state :: string
  pr_created_at :: string
  pr_updated_at :: string
  pr_user :: "GitHubUser option"
  pr_labels :: "GitHubLabel list"
  pr_assignees :: "GitHubUser list"
  pr_draft :: bool
  pr_merged_at :: "string option"

record BranchHead =
  head_sha :: string
  head_url :: string

record GitHubBranch =
  branch_name :: string
  branch_commit :: BranchHead
  branch_protected :: bool

record GitSignature =
  sig_name :: string
  sig_email :: string
  sig_date :: string

record GitCommit =
  git_author :: GitSignature
  git_committer :: GitSignature
  git_message :: string

record GitHubCommit =
  commit_sha :: string
  commit_commit :: GitCommit
  commit_author :: "GitHubUser option"
  commit_committer :: "GitHubUser option"

text \<open>The shared types \<open>Repository\<close>, \<open>Label\<close>, \<open>Assignee\<close> and \<open>NormalizedItem\<close>.\<close>

record Repository =
  repository_id :: int
  repository_name :: string
  repository_fullName :: string
  repository_description :: "string option"
  repository_url :: string
  repository_isPrivate :: bool
  repository_defaultBranch :: string

record Label =
  name :: string
  color :: string

record Assignee =
  login :: string
  avatarUrl :: string

text \<open>\<open>ItemType = 'issue' | 'pr' | 'branch'\<close>.\<close>

datatype ItemType = Issue | PR | Branch

record NormalizedItem =
  item_id :: string
  item_type :: ItemType
  item_repository :: string
  item_repositoryFullName :: string
  item_title :: string
  item_author :: string
  item_authorAvatarUrl :: "string option"
  item_labels :: "Label list"
  item_assignees :: "Assignee list"
  item_createdAt :: string
  item_updatedAt :: string
  item_url :: string
  item_state :: "string option"
  item_number :: "int option"
  item_isDraft :: "bool option"

text \<open>What the service stores in its cache: the array a normalizer returned.\<close>

datatype cached = Repositories "Repository list" | Items "NormalizedItem list"

section \<open>The upstream and the state of the module\<close>

text \<open>
  A \<open>Response\<close> as \<open>request\<close> reads it: \<open>ok\<close>, \<open>status\<close>, \<open>statusText\<close>, the three rate
  limit headers as \<open>headers.get\<close> returns them (\<open>None\<close> for \<open>null\<close>), \<open>body_message\<close> for
  the \<open>message\<close> property of the body text when the text parses as JSON and the property
  is truthy, and \<open>body_json\<close> for what \<open>response.json()\<close> resolves to, cast to the type
  the call site expects (\<open>None\<close> when the body is not JSON).
\<close>

record 'a Response =
  ok :: bool
  status :: nat
  statusText :: string
  x_ratelimit_remaining :: "string option"
  x_ratelimit_reset :: "string option"
  x_ratelimit_limit :: "string option"
  body_message :: "string option"
  body_json :: "'a option"

text \<open>\<open>fetch\<close> rejects, or resolves to a response; \<open>clock\<close> is \<open>Date.now()\<close> from then on.\<close>

datatype 'a fetched = Rejected | Resolved "'a Response"

record 'a reply =
  outcome :: "'a fetched"
  clock :: int

text \<open>
  The upstream answers the \<open>k\<close>-th call of \<open>fetch\<close> (counted from 0 over the life of the
  module) for a URL.
\<close>

type_synonym 'a upstream = "nat \<Rightarrow> string \<Rightarrow> 'a reply"

text \<open>
  The module-level state: \<open>rateLimitInfo\<close>, the \<open>cache\<close>, the clock \<open>Date.now()\<close> reads,
  and the URLs passed to \<open>fetch\<close> so far, oldest first.
\<close>

record world =
  rateLimitInfo :: RateLimitInfo
  cache :: "cached Cache"
  now :: int
  calls :: "string list"

datatype error =
    RateLimitExceeded jsnumber
  | UpstreamError string
  | DecodeError
  | NetworkError

section \<open>\<open>GitHubService.request\<close>\<close>

definition baseUrl :: string where
  "baseUrl = ''https://api.github.com''"

definition startsWith :: "string \<Rightarrow> string \<Rightarrow> bool" where
  "startsWith s p = (take (length p) s = p)"

text \<open>
  The check before the request: \<open>Some\<close> of the error thrown, carrying the seconds in
  its message, or \<open>None\<close> when the request goes on.
\<close>

definition rate_limit_check :: "world \<Rightarrow> error option" where
  "rate_limit_check w =
     (if js_le (remaining (rateLimitInfo w)) (Finite 0) then
        (let waitTime = js_sub (reset (rateLimitInfo w)) (Finite (now w))
         in if js_gt waitTime (Finite 0) then Some (RateLimitExceeded (ceil_div_1000 waitTime))
            else None)
      else None)"

definition resolve_url :: "string \<Rightarrow> string" where
  "resolve_url endpoint = (if startsWith endpoint ''http'' then endpoint else baseUrl @ endpoint)"

text \<open>The three guarded assignments after the response has arrived.\<close>

definition update_rate_limit :: "'a Response \<Rightarrow> RateLimitInfo \<Rightarrow> RateLimitInfo" where
  "update_rate_limit r info =
     (let info1 = (case x_ratelimit_remaining r of
                     Some s \<Rightarrow> if truthy_string s then info\<lparr>remaining := parseInt s\<rparr> else info
                   | None \<Rightarrow> info);
          info2 = (case x_ratelimit_reset r of
                     Some s \<Rightarrow> if truthy_string s
                               then info1\<lparr>reset := js_mul (parseInt s) (Finite 1000)\<rparr> else info1
                   | None \<Rightarrow> info1);
          info3 = (case x_ratelimit_limit r of
                     Some s \<Rightarrow> if truthy_string s then info2\<lparr>limit := parseInt s\<rparr> else info2
                   | None \<Rightarrow> info2)
      in info3)"

text \<open>From \<open>if (!response.ok)\<close> on: the error thrown or the decoded body.\<close>

definition settle :: "'a Response \<Rightarrow> error + 'a" where
  "settle r =
     (if \<not> ok r then
        Inl (UpstreamError
          (case body_message r of
             Some m \<Rightarrow> ''GitHub API error: '' @ m
           | None \<Rightarrow> ''GitHub API error: '' @ show_nat (status r) @ '' '' @ statusText r))
      else (case body_json r of None \<Rightarrow> Inl DecodeError | Some v \<Rightarrow> Inr v))"

text \<open>
  Every call site passes the endpoint alone, so \<open>options\<close> is its default \<open>{}\<close> and the
  headers sent are the three fixed ones; the call is recorded by its URL.
\<close>

definition request :: "'a upstream \<Rightarrow> string \<Rightarrow> world \<Rightarrow> (error + 'a) \<times> world" where
  "request up endpoint w =
     (case rate_limit_check w of
        Some e \<Rightarrow> (Inl e, w)
      | None \<Rightarrow>
          (let url = resolve_url endpoint;
               rep = up (length (calls w)) url;
               w1 = w\<lparr>calls := calls w @ [url], now := clock rep\<rparr>
           in case outcome rep of
                Rejected \<Rightarrow> (Inl NetworkError, w1)
              | Resolved r \<Rightarrow>
                  (settle r, w1\<lparr>rateLimitInfo := update_rate_limit r (rateLimitInfo w1)\<rparr>)))"

section \<open>\<open>GitHubService.fetchAllPages\<close>\<close>

definition perPage :: nat where
  "perPage = 100"

definition page_url :: "string \<Rightarrow> nat \<Rightarrow> string" where
  "page_url endpoint page =
     (let separator = (if CHR ''?'' \<in> set endpoint then ''&'' else ''?'')
      in endpoint @ separator @ ''per_page='' @ show_nat perPage @ ''&page='' @ show_nat page)"

text \<open>
  The \<open>while (true)\<close> loop, with \<open>results\<close> and \<open>page\<close> as arguments. It need not end (an
  upstream that always sends full pages keeps it running): the result is \<open>None\<close> then.
\<close>

partial_function (option) fetch_loop ::
  "'a list upstream \<Rightarrow> string \<Rightarrow> 'a list \<Rightarrow> nat \<Rightarrow> world \<Rightarrow> ((error + 'a list) \<times> world) option"
where
  "fetch_loop up endpoint results page w =
     (case request up (page_url endpoint page) w of
        (Inl e, w') \<Rightarrow> Some (Inl e, w')
      | (Inr d, w') \<Rightarrow>
          (let results' = results @ d
           in if length d < perPage then Some (Inr results', w')
              else fetch_loop up endpoint results' (page + 1) w'))"

definition fetchAllPages ::
  "'a list upstream \<Rightarrow> string \<Rightarrow> world \<Rightarrow> ((error + 'a list) \<times> world) option"
where
  "fetchAllPages up endpoint w = fetch_loop up endpoint [] 1 w"

section \<open>The normalizers\<close>

text \<open>
  Each normalizer returns what \<open>cache.get\<close> found, when it found something (an array is
  truthy even when empty), and otherwise fetches, transforms, stores and returns.
\<close>

subsection \<open>\<open>getOrganizationRepos\<close>\<close>

definition normalize_repo :: "GitHubRepository \<Rightarrow> Repository" where
  "normalize_repo repo =
     \<lparr>repository_id = repo_id repo,
      repository_name = repo_name repo,
      repository_fullName = repo_full_name repo,
      repository_description = repo_description repo,
      repository_url = repo_html_url repo,
      repository_isPrivate = repo_private repo,
      repository_defaultBranch = repo_default_branch repo\<rparr>"

definition getOrganizationRepos ::
  "GitHubRepository list upstream \<Rightarrow> string \<Rightarrow> world \<Rightarrow> ((error + cached) \<times> world) option"
where
  "getOrganizationRepos up org w =
     (let cacheKey = ''repos:'' @ org;
          found = cache_get (now w) cacheKey (cache w);
          w1 = w\<lparr>cache := snd found\<rparr>
      in case fst found of
           Some c \<Rightarrow> Some (Inr c, w1)
         | None \<Rightarrow>
             (case fetchAllPages up (''/orgs/'' @ org @ ''/repos'') w1 of
                None \<Rightarrow> None
              | Some (Inl e, w2) \<Rightarrow> Some (Inl e, w2)
              | Some (Inr repos, w2) \<Rightarrow>
                  (let normalized = Repositories (map normalize_repo repos)
                   in Some (Inr normalized,
                        w2\<lparr>cache := cache_set (now w2) cacheKey normalized (cache w2)\<rparr>))))"

subsection \<open>\<open>getRepositoryIssues\<close>\<close>

definition to_label :: "GitHubLabel \<Rightarrow> Label" where
  "to_label label = \<lparr>name = label_name label, color = label_color label\<rparr>"

definition to_assignee :: "GitHubUser \<Rightarrow> Assignee" where
  "to_assignee assignee = \<lparr>login = user_login assignee, avatarUrl = user_avatar_url assignee\<rparr>"

text \<open>\<open>!issue.pull_request\<close> is false exactly when the field is there and truthy.\<close>

definition pull_request_truthy :: "GitHubIssue \<Rightarrow> bool" where
  "pull_request_truthy issue =
     (case issue_pull_request issue of None \<Rightarrow> False | Some v \<Rightarrow> truthy v)"

definition normalize_issue :: "string \<Rightarrow> string \<Rightarrow> GitHubIssue \<Rightarrow> NormalizedItem" where
  "normalize_issue owner repo issue =
     \<lparr>item_id = ''issue-'' @ owner @ ''-'' @ repo @ ''-'' @ show_int (issue_id issue),
      item_type = Issue,
      item_repository = repo,
      item_repositoryFullName = owner @ ''/'' @ repo,
      item_title = issue_title issue,
      item_author = (case issue_user issue of Some u \<Rightarrow> user_login u | None \<Rightarrow> ''unknown''),
      item_authorAvatarUrl =
        (case issue_user issue of Some u \<Rightarrow> Some (user_avatar_url u) | None \<Rightarrow> None),
      item_labels = map to_label (issue_labels issue),
      item_assignees = map to_assignee (issue_assignees issue),
      item_createdAt = issue_created_at issue,
      item_updatedAt = issue_updated_at issue,
      item_url = issue_html_url issue,
      item_state = Some (issue_state issue),
      item_number = Some (issue_number issue),
      item_isDraft = None\<rparr>"

definition getRepositoryIssues ::
  "GitHubIssue list upstream \<Rightarrow> string \<Rightarrow> string \<Rightarrow> world \<Rightarrow> ((error + cached) \<times> world) option"
where
  "getRepositoryIssues up owner repo w =
     (let cacheKey = ''issues:'' @ owner @ ''/'' @ repo;
          found = cache_get (now w) cacheKey (cache w);
          w1 = w\<lparr>cache := snd found\<rparr>
      in case fst found of
           Some c \<Rightarrow> Some (Inr c, w1)
         | None \<Rightarrow>
             (case fetchAllPages up (''/repos/'' @ owner @ ''/'' @ repo @ ''/issues?state=all'') w1 of
                None \<Rightarrow> None
              | Some (Inl e, w2) \<Rightarrow> Some (Inl e, w2)
              | Some (Inr issues, w2) \<Rightarrow>
                  (let filteredIssues = filter (\<lambda>issue. \<not> pull_request_truthy issue) issues;
                       normalized = Items (map (normalize_issue owner repo) filteredIssues)
                   in Some (Inr normalized,
                        w2\<lparr>cache := cache_set (now w2) cacheKey normalized (cache w2)\<rparr>))))"

subsection \<open>\<open>getRepositoryPulls\<close>\<close>

definition normalize_pull :: "string \<Rightarrow> string \<Rightarrow> GitHubPullRequest \<Rightarrow> NormalizedItem" where
  "normalize_pull owner repo pr =
     \<lparr>item_id = ''pr-'' @ owner @ ''-'' @ repo @ ''-'' @ show_int (pr_id pr),
      item_type = PR,
      item_repository = repo,
      item_repositoryFullName = owner @ ''/'' @ repo,
      item_title = pr_title pr,
      item_author = (case pr_user pr of Some u \<Rightarrow> user_login u | None \<Rightarrow> ''unknown''),
      item_authorAvatarUrl =
        (case pr_user pr of Some u \<Rightarrow> Some (user_avatar_url u) | None \<Rightarrow> None),
      item_labels = map to_label (pr_labels pr),
      item_assignees = map to_assignee (pr_assignees pr),
      item_createdAt = pr_created_at pr,
      item_updatedAt = pr_updated_at pr,
      item_url = pr_html_url pr,
      item_state =
        Some (case pr_merged_at pr of
                Some m \<Rightarrow> if truthy_string m then ''merged'' else pr_state pr
              | None \<Rightarrow> pr_state pr),
      item_number = Some (pr_number pr),
      item_isDraft = Some (pr_draft pr)\<rparr>"

definition getRepositoryPulls ::
  "GitHubPullRequest list upstream \<Rightarrow> string \<Rightarrow> string \<Rightarrow> world
     \<Rightarrow> ((error + cached) \<times> world) option"
where
  "getRepositoryPulls up owner repo w =
     (let cacheKey = ''pulls:'' @ owner @ ''/'' @ repo;
          found = cache_get (now w) cacheKey (cache w);
          w1 = w\<lparr>cache := snd found\<rparr>
      in case fst found of
           Some c \<Rightarrow> Some (Inr c, w1)
         | None \<Rightarrow>
             (case fetchAllPages up (''/repos/'' @ owner @ ''/'' @ repo @ ''/pulls?state=all'') w1 of
                None \<Rightarrow> None
              | Some (Inl e, w2) \<Rightarrow> Some (Inl e, w2)
              | Some (Inr pulls, w2) \<Rightarrow>
                  (let normalized = Items (map (normalize_pull owner repo) pulls)
                   in Some (Inr normalized,
                        w2\<lparr>cache := cache_set (now w2) cacheKey normalized (cache w2)\<rparr>))))"

subsection \<open>\<open>getCommitDetails\<close> and \<open>getRepositoryBranches\<close>\<close>

definition commit_endpoint :: "string \<Rightarrow> string \<Rightarrow> string \<Rightarrow> string" where
  "commit_endpoint owner repo sha = ''/repos/'' @ owner @ ''/'' @ repo @ ''/commits/'' @ sha"

definition getCommitDetails ::
  "GitHubCommit upstream \<Rightarrow> string \<Rightarrow> string \<Rightarrow> string \<Rightarrow> world
     \<Rightarrow> (error + GitHubCommit) \<times> world"
where
  "getCommitDetails up owner repo sha w = request up (commit_endpoint owner repo sha) w"

text \<open>
  \<open>branches.map(async ...)\<close> runs each callback up to its first suspension before it
  starts the next one. That point is the \<open>await fetch(...)\<close> inside \<open>request\<close>: the rate
  limit check has been made and \<open>fetch\<close> has been called. So every check reads the state
  the branch listing left, and the calls to \<open>fetch\<close> are made in branch order.
  \<open>start_lookups\<close> returns, per branch, the error thrown by the check or the reply
  that is on its way.
\<close>

fun start_lookups ::
  "GitHubCommit upstream \<Rightarrow> string \<Rightarrow> string \<Rightarrow> GitHubBranch list \<Rightarrow> world
     \<Rightarrow> (error + GitHubCommit reply) list \<times> world"
where
  "start_lookups up owner repo [] w = ([], w)"
| "start_lookups up owner repo (branch # rest) w =
     (case rate_limit_check w of
        Some e \<Rightarrow>
          (let r = start_lookups up owner repo rest w in (Inl e # fst r, snd r))
      | None \<Rightarrow>
          (let url = resolve_url (commit_endpoint owner repo (head_sha (branch_commit branch)));
               rep = up (length (calls w)) url;
               r = start_lookups up owner repo rest (w\<lparr>calls := calls w @ [url]\<rparr>)
           in (Inr rep # fst r, snd r)))"

text \<open>
  The replies arrive in any order; \<open>arrival\<close> lists the branch indices in that order.
  Each arrival runs the rest of \<open>request\<close> on the state: the clock, and the guarded
  assignments to \<open>rateLimitInfo\<close> when a response came.
\<close>

definition arrive :: "(error + 'a reply) \<Rightarrow> world \<Rightarrow> world" where
  "arrive p w =
     (case p of
        Inl e \<Rightarrow> w
      | Inr rep \<Rightarrow>
          (let w1 = w\<lparr>now := clock rep\<rparr>
           in case outcome rep of
                Rejected \<Rightarrow> w1
              | Resolved r \<Rightarrow> w1\<lparr>rateLimitInfo := update_rate_limit r (rateLimitInfo w1)\<rparr>))"

definition arrive_all :: "(error + 'a reply) list \<Rightarrow> nat list \<Rightarrow> world \<Rightarrow> world" where
  "arrive_all pending arrival w =
     foldl (\<lambda>w i. if i < length pending then arrive (pending ! i) w else w) w arrival"

text \<open>What one lookup promise settles to, and the \<open>try\<close>/\<open>catch\<close> around it.\<close>

definition lookup_result :: "(error + 'a reply) \<Rightarrow> error + 'a" where
  "lookup_result p =
     (case p of
        Inl e \<Rightarrow> Inl e
      | Inr rep \<Rightarrow> (case outcome rep of Rejected \<Rightarrow> Inl NetworkError | Resolved r \<Rightarrow> settle r))"

definition caught :: "error + 'a \<Rightarrow> 'a option" where
  "caught r = (case r of Inl e \<Rightarrow> None | Inr c \<Rightarrow> Some c)"

text \<open>\<open>commit?.commit?.committer?.date || ''\<close>.\<close>

definition lastCommitDate :: "GitHubCommit option \<Rightarrow> string" where
  "lastCommitDate commit =
     (case commit of
        None \<Rightarrow> ''''
      | Some c \<Rightarrow>
          (let d = sig_date (git_committer (commit_commit c))
           in if truthy_string d then d else ''''))"

definition normalize_branch ::
  "string \<Rightarrow> string \<Rightarrow> GitHubBranch \<times> GitHubCommit option \<Rightarrow> NormalizedItem"
where
  "normalize_branch owner repo bc =
     (case bc of (branch, commit) \<Rightarrow>
        \<lparr>item_id = ''branch-'' @ owner @ ''-'' @ repo @ ''-'' @ branch_name branch,
         item_type = Branch,
         item_repository = repo,
         item_repositoryFullName = owner @ ''/'' @ repo,
         item_title = branch_name branch,
         item_author = '''',
         item_authorAvatarUrl = None,
         item_labels = [],
         item_assignees = [],
         item_createdAt = lastCommitDate commit,
         item_updatedAt = lastCommitDate commit,
         item_url = ''https://github.com/'' @ owner @ ''/'' @ repo @ ''/tree/'' @ branch_name branch,
         item_state = None,
         item_number = None,
         item_isDraft = None\<rparr>)"

definition getRepositoryBranches ::
  "GitHubBranch list upstream \<Rightarrow> GitHubCommit upstream \<Rightarrow> nat list \<Rightarrow> string \<Rightarrow> string \<Rightarrow> world
     \<Rightarrow> ((error + cached) \<times> world) option"
where
  "getRepositoryBranches up up_commit arrival owner repo w =
     (let cacheKey = ''branches:'' @ owner @ ''/'' @ repo;
          found = cache_get (now w) cacheKey (cache w);
          w1 = w\<lparr>cache := snd found\<rparr>
      in case fst found of
           Some c \<Rightarrow> Some (Inr c, w1)
         | None \<Rightarrow>
             (case fetchAllPages up (''/repos/'' @ owner @ ''/'' @ repo @ ''/branches'') w1 of
                None \<Rightarrow> None
              | Some (Inl e, w2) \<Rightarrow> Some (Inl e, w2)
              | Some (Inr branches, w2) \<Rightarrow>
                  (let started = start_lookups up_commit owner repo branches w2;
                       w3 = arrive_all (fst started) arrival (snd started);
                       branchesWithCommits =
                         zip branches (map (\<lambda>p. caught (lookup_result p)) (fst started));
                       normalized = Items (map (normalize_branch owner repo) branchesWithCommits)
                   in Some (Inr normalized,
                        w3\<lparr>cache := cache_set (now w3) cacheKey normalized (cache w3)\<rparr>))))"

text \<open>\<open>getRateLimitInfo\<close> copies the state; \<open>clearCache\<close> empties the cache.\<close>

definition getRateLimitInfo :: "world \<Rightarrow> RateLimitInfo" where
  "getRateLimitInfo w = rateLimitInfo w"

definition clearCache :: "world \<Rightarrow> world" where
  "clearCache w = w\<lparr>cache := cache_clear (cache w)\<rparr>"

section \<open>Notions used in the statements\<close>

text \<open>
  The condition of the gate in words: no quota left and the reset time still ahead of the
  clock.
\<close>

definition rate_limited :: "world \<Rightarrow> bool" where
  "rate_limited w =
     (js_le (remaining (rateLimitInfo w)) (Finite 0) \<and> js_gt (reset (rateLimitInfo w)) (Finite (now w)))"

text \<open>What a call returned, without the state it left (\<open>None\<close> when it did not return).\<close>

definition returned :: "('r \<times> world) option \<Rightarrow> 'r option" where
  "returned res = map_option fst res"

text \<open>The entry a call left in the cache under a key.\<close>

definition entry_left :: "('r \<times> world) option \<Rightarrow> string \<Rightarrow> cached CacheEntry option option" where
  "entry_left res key = map_option (\<lambda>r. cache (snd r) key) res"

text \<open>
  The lookup for branch \<open>i\<close> of a listing: \<open>getCommitDetails\<close> for its head commit, on
  the state \<open>w\<close> the listing left, after the calls to \<open>fetch\<close> made for the branches
  before it.
\<close>

definition branch_lookup ::
  "GitHubCommit upstream \<Rightarrow> string \<Rightarrow> string \<Rightarrow> GitHubBranch list \<Rightarrow> world \<Rightarrow> nat
     \<Rightarrow> error + GitHubCommit"
where
  "branch_lookup up owner repo branches w i =
     fst (getCommitDetails up owner repo (head_sha (branch_commit (branches ! i)))
            (w\<lparr>calls := calls w @
                 map (\<lambda>b. resolve_url (commit_endpoint owner repo (head_sha (branch_commit b))))
                   (take i branches)\<rparr>))"

text \<open>
  The reply of the upstream to the request for page \<open>i + 1\<close> of an endpoint, in a run of
  \<open>fetchAllPages\<close> that starts in \<open>w\<close> and has sent the requests for the pages before
  it; and the replies to the first \<open>n\<close> page requests of the run.
\<close>

definition page_reply :: "'a upstream \<Rightarrow> string \<Rightarrow> world \<Rightarrow> nat \<Rightarrow> 'a reply" where
  "page_reply up endpoint w i = up (length (calls w) + i) (resolve_url (page_url endpoint (i + 1)))"

definition page_replies :: "'a upstream \<Rightarrow> string \<Rightarrow> world \<Rightarrow> nat \<Rightarrow> 'a reply list" where
  "page_replies up endpoint w n = map (page_reply up endpoint w) [0..<n]"

text \<open>
  The clock and the tracker after replies have arrived one after the other: what
  \<open>request\<close> does to them for each reply. The record of the calls is not touched.
\<close>

definition after_replies :: "world \<Rightarrow> 'a reply list \<Rightarrow> world" where
  "after_replies w reps = foldl (\<lambda>v rep. arrive (Inr rep) v) w reps"

section \<open>Example inputs\<close>

text \<open>Responses, upstreams and states that the examples run on.\<close>

definition plain_response :: "'a option \<Rightarrow> 'a Response" where
  "plain_response b =
     \<lparr>ok = True, status = 200, statusText = ''OK'', x_ratelimit_remaining = None,
      x_ratelimit_reset = None, x_ratelimit_limit = None, body_message = None, body_json = b\<rparr>"

definition error_response :: "string option \<Rightarrow> string option \<Rightarrow> string option \<Rightarrow> 'a Response" where
  "error_response a b c =
     \<lparr>ok = False, status = 403, statusText = ''Forbidden'', x_ratelimit_remaining = a,
      x_ratelimit_reset = b, x_ratelimit_limit = c, body_message = Some ''API rate limit exceeded'',
      body_json = None\<rparr>"

definition steady_upstream :: "'a Response \<Rightarrow> 'a upstream" where
  "steady_upstream r = (\<lambda>k url. \<lparr>outcome = Resolved r, clock = 50000\<rparr>)"

text \<open>An upstream that answers every call with a 403.\<close>

definition refusing :: "'a upstream" where
  "refusing = steady_upstream (error_response None None None)"

definition fresh_world :: world where
  "fresh_world = \<lparr>rateLimitInfo = initial_rateLimitInfo 0, cache = Map.empty, now = 0, calls = []\<rparr>"

definition limited_world :: "int \<Rightarrow> world" where
  "limited_world resetAt =
     \<lparr>rateLimitInfo = \<lparr>remaining = Finite 0, reset = Finite resetAt, limit = Finite 5000\<rparr>,
      cache = Map.empty, now = 50000, calls = []\<rparr>"

text \<open>
  A state whose cache holds an entry for the issues of acme/app that expired a
  millisecond ago.
\<close>

definition stale_world :: world where
  "stale_world =
     fresh_world\<lparr>cache := [''issues:acme/app'' \<mapsto> \<lparr>data = Items [], expiresAt = 0\<rparr>], now := 1\<rparr>"

text \<open>Pages of consecutive numbers, served by page URL.\<close>

definition items_from :: "nat \<Rightarrow> nat \<Rightarrow> nat list" where
  "items_from a b = [a..<b]"

definition three_pages :: "nat list upstream" where
  "three_pages k url =
     \<lparr>outcome =
        (if url = ''https://api.github.com/orgs/acme/repos?per_page=100&page=1''
         then Resolved (plain_response (Some (items_from 0 100)))
         else if url = ''https://api.github.com/orgs/acme/repos?per_page=100&page=2''
         then Resolved (plain_response (Some (items_from 100 200)))
         else if url = ''https://api.github.com/orgs/acme/repos?per_page=100&page=3''
         then Resolved (plain_response (Some (items_from 200 237)))
         else Rejected),
      clock = 50000\<rparr>"

definition four_pages :: "nat list upstream" where
  "four_pages k url =
     \<lparr>outcome =
        (if url = ''https://api.github.com/repos/acme/app/issues?state=all&per_page=100&page=1''
         then Resolved (plain_response (Some (items_from 0 100)))
         else if url = ''https://api.github.com/repos/acme/app/issues?state=all&per_page=100&page=2''
         then Resolved (plain_response (Some (items_from 100 200)))
         else if url = ''https://api.github.com/repos/acme/app/issues?state=all&per_page=100&page=3''
         then Resolved (plain_response (Some (items_from 200 300)))
         else if url = ''https://api.github.com/repos/acme/app/issues?state=all&per_page=100&page=4''
         then Resolved (plain_response (Some []))
         else Rejected),
      clock = 50000\<rparr>"

text \<open>
  Pages of 100 and of 37 items whose responses report that no quota is left: the first
  with the given reset time (in seconds), the second with a reset time of 60 seconds.
\<close>

definition metered_response :: "string \<Rightarrow> string \<Rightarrow> 'a option \<Rightarrow> 'a Response" where
  "metered_response left resetAt b =
     \<lparr>ok = True, status = 200, statusText = ''OK'', x_ratelimit_remaining = Some left,
      x_ratelimit_reset = Some resetAt, x_ratelimit_limit = None, body_message = None,
      body_json = b\<rparr>"

definition metered_pages :: "string \<Rightarrow> nat list upstream" where
  "metered_pages resetAt k url =
     \<lparr>outcome =
        (if url = ''https://api.github.com/orgs/acme/repos?per_page=100&page=1''
         then Resolved (metered_response ''0'' resetAt (Some (items_from 0 100)))
         else if url = ''https://api.github.com/orgs/acme/repos?per_page=100&page=2''
         then Resolved (metered_response ''0'' ''60'' (Some (items_from 100 137)))
         else Rejected),
      clock = 50000\<rparr>"

text \<open>Raw records.\<close>

definition a_user :: GitHubUser where
  "a_user = \<lparr>user_login = ''octocat'', user_avatar_url = ''https://avatars.example/u/1''\<rparr>"

definition a_pull :: "string \<Rightarrow> string option \<Rightarrow> GitHubPullRequest" where
  "a_pull st merged =
     \<lparr>pr_id = 9001, pr_number = 17, pr_title = ''Fix the parser'',
      pr_html_url = ''https://github.com/acme/app/pull/17'', pr_state = st,
      pr_created_at = ''2024-01-02T03:04:05Z'', pr_updated_at = ''2024-02-03T04:05:06Z'',
      pr_user = Some a_user, pr_labels = [\<lparr>label_name = ''bug'', label_color = ''d73a4a''\<rparr>],
      pr_assignees = [], pr_draft = True, pr_merged_at = merged\<rparr>"

definition a_pull_numbered :: "int \<Rightarrow> GitHubPullRequest" where
  "a_pull_numbered n = (a_pull ''open'' None)\<lparr>pr_id := n\<rparr>"

definition an_issue :: "int \<Rightarrow> json option \<Rightarrow> GitHubIssue" where
  "an_issue n marker =
     \<lparr>issue_id = n, issue_number = 5, issue_title = ''Crash on start'',
      issue_html_url = ''https://github.com/acme/app/issues/5'', issue_state = ''open'',
      issue_created_at = ''2024-01-02T03:04:05Z'', issue_updated_at = ''2024-02-03T04:05:06Z'',
      issue_user = None, issue_labels = [], issue_assignees = [a_user],
      issue_pull_request = marker\<rparr>"

definition a_branch :: "string \<Rightarrow> string \<Rightarrow> GitHubBranch" where
  "a_branch n sha =
     \<lparr>branch_name = n,
      branch_commit = \<lparr>head_sha = sha, head_url = ''https://api.github.com/repos/acme/app/commits/'' @ sha\<rparr>,
      branch_protected = False\<rparr>"

definition a_commit :: "string \<Rightarrow> string \<Rightarrow> string \<Rightarrow> GitHubCommit" where
  "a_commit sha authored committed =
     \<lparr>commit_sha = sha,
      commit_commit =
        \<lparr>git_author = \<lparr>sig_name = ''Ada'', sig_email = ''ada@example.org'', sig_date = authored\<rparr>,
         git_committer = \<lparr>sig_name = ''Bob'', sig_email = ''bob@example.org'', sig_date = committed\<rparr>,
         git_message = ''Tidy up''\<rparr>,
      commit_author = None, commit_committer = None\<rparr>"

text \<open>The commit endpoint answers for two of three heads and sends a 403 for the third.\<close>

definition commits_upstream :: "GitHubCommit upstream" where
  "commits_upstream k url =
     \<lparr>outcome =
        (if url = ''https://api.github.com/repos/acme/app/commits/aaa1''
         then Resolved (plain_response (Some
                (a_commit ''aaa1'' ''2024-01-01T00:00:00Z'' ''2024-01-05T00:00:00Z'')))
         else if url = ''https://api.github.com/repos/acme/app/commits/ccc3''
         then Resolved (plain_response (Some
                (a_commit ''ccc3'' ''2024-03-01T00:00:00Z'' ''2024-03-07T00:00:00Z'')))
         else Resolved (error_response None None None)),
      clock = 60000\<rparr>"

section \<open>Properties\<close>

subsection \<open>The cache\<close>

text \<open>
  C7. \<open>cache.set\<close> at time \<open>t\<close> stores the value with expiry \<open>t\<close> plus five minutes
  (300000 ms). A \<open>cache.get\<close> for the key at any time up to the expiry returns the value
  unchanged and leaves the store alone; a \<open>cache.get\<close> at a later time reports absent
  and deletes the entry, which had stayed in the store until that lookup.
\<close>

theorem cache_get_after_set:
  "cache_set t key v store key = Some \<lparr>data = v, expiresAt = t + 300000\<rparr>
   \<and> (t' \<le> t + 300000 \<longrightarrow>
        cache_get t' key (cache_set t key v store) = (Some v, cache_set t key v store))
   \<and> (t' > t + 300000 \<longrightarrow>
        cache_get t' key (cache_set t key v store) = (None, (cache_set t key v store)(key := None)))"
  by (simp add: cache_get_def cache_set_def CACHE_TTL_MS_def)

theorem cache_get_after_set_witness:
  "fst (cache_get 1000 ''repos:acme'' (cache_set 1000 ''repos:acme'' (42::nat) Map.empty)) = Some 42
   \<and> fst (cache_get 301000 ''repos:acme'' (cache_set 1000 ''repos:acme'' (42::nat) Map.empty)) = Some 42
   \<and> fst (cache_get 301001 ''repos:acme'' (cache_set 1000 ''repos:acme'' (42::nat) Map.empty)) = None
   \<and> snd (cache_get 301001 ''repos:acme'' (cache_set 1000 ''repos:acme'' (42::nat) Map.empty))
        ''repos:acme'' = None"
  using cache_get_after_set [of 1000 "''repos:acme''" "42::nat" Map.empty 1000]
    cache_get_after_set [of 1000 "''repos:acme''" "42::nat" Map.empty 301000]
    cache_get_after_set [of 1000 "''repos:acme''" "42::nat" Map.empty 301001]
  by simp

subsection \<open>The rate limit gate and the tracker\<close>

lemma rate_limit_check_None: "(rate_limit_check w = None) = (\<not> rate_limited w)"
  by (cases "remaining (rateLimitInfo w)"; cases "reset (rateLimitInfo w)")
     (auto simp: rate_limit_check_def rate_limited_def Let_def)

lemma rate_limit_check_Some:
  "rate_limited w \<Longrightarrow>
   rate_limit_check w = Some (RateLimitExceeded (ceil_div_1000 (js_sub (reset (rateLimitInfo w)) (Finite (now w)))))"
  by (cases "remaining (rateLimitInfo w)"; cases "reset (rateLimitInfo w)")
     (auto simp: rate_limit_check_def rate_limited_def Let_def)

lemma settle_not_rate_limit: "settle r \<noteq> Inl (RateLimitExceeded s)"
  by (simp add: settle_def split: option.splits)

lemma request_resolved:
  assumes "rate_limit_check w = None"
    and "outcome (up (length (calls w)) (resolve_url endpoint)) = Resolved r"
  shows "request up endpoint w =
           (settle r,
            w\<lparr>calls := calls w @ [resolve_url endpoint],
              now := clock (up (length (calls w)) (resolve_url endpoint)),
              rateLimitInfo := update_rate_limit r (rateLimitInfo w)\<rparr>)"
  using assms by (simp add: request_def Let_def)

text \<open>
  C2. \<open>request\<close> fails before the network call, with the rate limit error and the state
  untouched (so no call to \<open>fetch\<close> is recorded), when \<open>remaining \<le> 0\<close> and the reset
  time is strictly after the clock. In every other state, also with \<open>remaining = 0\<close> and a
  reset time that has passed, it calls \<open>fetch\<close> once for the resolved URL and whatever it
  returns is not the rate limit error.
\<close>

theorem request_gate:
  "(js_le (remaining (rateLimitInfo w)) (Finite 0) \<and> js_gt (reset (rateLimitInfo w)) (Finite (now w))
      \<longrightarrow> request up endpoint w =
            (Inl (RateLimitExceeded
                   (ceil_div_1000 (js_sub (reset (rateLimitInfo w)) (Finite (now w))))), w))
   \<and> (\<not> (js_le (remaining (rateLimitInfo w)) (Finite 0)
          \<and> js_gt (reset (rateLimitInfo w)) (Finite (now w)))
      \<longrightarrow> calls (snd (request up endpoint w)) = calls w @ [resolve_url endpoint]
          \<and> (\<forall>s. fst (request up endpoint w) \<noteq> Inl (RateLimitExceeded s)))"
proof (cases "rate_limited w")
  case True
  then show ?thesis
    by (simp add: request_def rate_limit_check_Some) (simp add: rate_limited_def)
next
  case False
  then have "rate_limit_check w = None"
    by (simp add: rate_limit_check_None)
  with False show ?thesis
    by (simp add: request_def Let_def settle_not_rate_limit rate_limited_def split: fetched.splits)
qed

theorem request_gate_witness:
  "request (steady_upstream (plain_response (Some (1::nat)))) ''/rate_limit'' (limited_world 60000)
     = (Inl (RateLimitExceeded (Finite 10)), limited_world 60000)
   \<and> calls (snd (request (steady_upstream (plain_response (Some (1::nat)))) ''/rate_limit''
        (limited_world 40000)))
     = [''https://api.github.com/rate_limit'']"
proof -
  have a: "js_le (remaining (rateLimitInfo (limited_world 60000))) (Finite 0)
      \<and> js_gt (reset (rateLimitInfo (limited_world 60000))) (Finite (now (limited_world 60000)))"
    by (simp add: limited_world_def)
  have b: "\<not> (js_le (remaining (rateLimitInfo (limited_world 40000))) (Finite 0)
      \<and> js_gt (reset (rateLimitInfo (limited_world 40000))) (Finite (now (limited_world 40000))))"
    by (simp add: limited_world_def)
  have c: "ceil_div_1000 (js_sub (reset (rateLimitInfo (limited_world 60000)))
             (Finite (now (limited_world 60000)))) = Finite 10"
    by (simp add: limited_world_def)
  have d: "calls (limited_world 40000) @ [resolve_url ''/rate_limit'']
      = [''https://api.github.com/rate_limit'']"
    by (simp add: limited_world_def resolve_url_def startsWith_def baseUrl_def)
  from request_gate [of "limited_world 60000" "steady_upstream (plain_response (Some (1::nat)))"
      "''/rate_limit''"] a c
  have 1: "request (steady_upstream (plain_response (Some (1::nat)))) ''/rate_limit'' (limited_world 60000)
     = (Inl (RateLimitExceeded (Finite 10)), limited_world 60000)"
    by simp
  from request_gate [of "limited_world 40000" "steady_upstream (plain_response (Some (1::nat)))"
      "''/rate_limit''"] b d
  have 2: "calls (snd (request (steady_upstream (plain_response (Some (1::nat)))) ''/rate_limit''
        (limited_world 40000)))
     = [''https://api.github.com/rate_limit'']"
    by simp
  from 1 2 show ?thesis by (rule conjI)
qed

text \<open>
  C8, amended. When \<open>request\<close> passes the gate and a response arrives, successful or not,
  each field of the tracker is set from its header when the header is there with a
  non-empty value (\<open>parseInt\<close> of it; times 1000 for the reset time), and keeps its value
  when the header is absent or empty.
\<close>

theorem request_updates_rate_limit:
  assumes "rate_limit_check w = None"
    and "outcome (up (length (calls w)) (resolve_url endpoint)) = Resolved r"
  shows "fst (request up endpoint w) = settle r
    \<and> remaining (rateLimitInfo (snd (request up endpoint w))) =
        (case x_ratelimit_remaining r of
           Some s \<Rightarrow> if s \<noteq> [] then parseInt s else remaining (rateLimitInfo w)
         | None \<Rightarrow> remaining (rateLimitInfo w))
    \<and> reset (rateLimitInfo (snd (request up endpoint w))) =
        (case x_ratelimit_reset r of
           Some s \<Rightarrow> if s \<noteq> [] then js_mul (parseInt s) (Finite 1000) else reset (rateLimitInfo w)
         | None \<Rightarrow> reset (rateLimitInfo w))
    \<and> limit (rateLimitInfo (snd (request up endpoint w))) =
        (case x_ratelimit_limit r of
           Some s \<Rightarrow> if s \<noteq> [] then parseInt s else limit (rateLimitInfo w)
         | None \<Rightarrow> limit (rateLimitInfo w))"
  using assms
  by (simp add: request_def update_rate_limit_def truthy_string_def Let_def
        split: option.splits)

theorem request_updates_rate_limit_witness:
  "fst (request (steady_upstream (error_response (Some ''0'') (Some ''1700000000'') None :: nat Response)) ''/user''
          fresh_world)
     = Inl (UpstreamError ''GitHub API error: API rate limit exceeded'')
   \<and> rateLimitInfo (snd (request
          (steady_upstream (error_response (Some ''0'') (Some ''1700000000'') None :: nat Response)) ''/user''
          fresh_world))
     = \<lparr>remaining = Finite 0, reset = Finite 1700000000000, limit = Finite 5000\<rparr>"
proof -
  let ?r = "error_response (Some ''0'') (Some ''1700000000'') None :: nat Response"
  let ?q = "request (steady_upstream ?r) ''/user'' fresh_world"
  have c: "rate_limit_check fresh_world = None"
    by (simp add: rate_limit_check_def fresh_world_def initial_rateLimitInfo_def)
  have o: "outcome (steady_upstream ?r (length (calls fresh_world)) (resolve_url ''/user'')) = Resolved ?r"
    by (simp add: steady_upstream_def)
  have p: "parseInt ''0'' = Finite 0" "parseInt ''1700000000'' = Finite 1700000000"
    by (simp_all add: parseInt_def is_white_space_def is_digit_def digits_value_def digit_value_def)
  have s: "settle ?r = Inl (UpstreamError ''GitHub API error: API rate limit exceeded'')"
    by (simp add: settle_def error_response_def)
  have h: "x_ratelimit_remaining ?r = Some ''0''" "x_ratelimit_reset ?r = Some ''1700000000''"
      "x_ratelimit_limit ?r = None"
    by (simp_all add: error_response_def)
  from request_updates_rate_limit [of fresh_world "steady_upstream ?r" "''/user''" ?r, OF c o]
  have "fst ?q = Inl (UpstreamError ''GitHub API error: API rate limit exceeded'')"
    and "remaining (rateLimitInfo (snd ?q)) = Finite 0"
    and "reset (rateLimitInfo (snd ?q)) = Finite 1700000000000"
    and "limit (rateLimitInfo (snd ?q)) = Finite 5000"
    by (simp_all add: p s h fresh_world_def initial_rateLimitInfo_def)
  then show ?thesis
    by (cases "rateLimitInfo (snd ?q)") simp
qed

text \<open>
  C8 as stated fails on a header that is present with an empty value: the response
  carries \<open>x-ratelimit-remaining\<close>, \<open>parseInt\<close> of its value is \<open>NaN\<close>, and the tracker
  keeps 5000.
\<close>

theorem empty_header_counterexample:
  "x_ratelimit_remaining (error_response (Some '''') None None :: nat Response) = Some ''''
   \<and> parseInt '''' = NaN
   \<and> remaining (rateLimitInfo (snd (request
        (steady_upstream (error_response (Some '''') None None :: nat Response)) ''/user'' fresh_world))) = Finite 5000"
  by (simp add: request_def rate_limit_check_def fresh_world_def initial_rateLimitInfo_def
      steady_upstream_def error_response_def update_rate_limit_def truthy_string_def parseInt_def Let_def)

subsection \<open>Pagination\<close>

lemma rate_limit_check_calls [simp]: "rate_limit_check (w\<lparr>calls := c\<rparr>) = rate_limit_check w"
  by (simp add: rate_limit_check_def)

lemma arrive_calls: "arrive p (v\<lparr>calls := c\<rparr>) = (arrive p v)\<lparr>calls := c\<rparr>"
  by (simp add: arrive_def Let_def split: sum.splits fetched.splits)

lemma after_replies_calls:
  "after_replies (v\<lparr>calls := c\<rparr>) reps = (after_replies v reps)\<lparr>calls := c\<rparr>"
  unfolding after_replies_def
  by (induction reps arbitrary: v) (simp_all add: arrive_calls)

lemma after_replies_Nil: "after_replies w [] = w"
  by (simp add: after_replies_def)

lemma after_replies_Cons: "after_replies w (rep # reps) = after_replies (arrive (Inr rep) w) reps"
  by (simp add: after_replies_def)

lemma after_replies_snoc: "after_replies w (reps @ [rep]) = arrive (Inr rep) (after_replies w reps)"
  by (simp add: after_replies_def)

lemma calls_arrive: "calls (arrive p v) = calls v"
  by (simp add: arrive_def Let_def split: sum.splits fetched.splits)

lemma calls_after_replies: "calls (after_replies v reps) = calls v"
  unfolding after_replies_def
  by (induction reps arbitrary: v) (simp_all add: calls_arrive)

lemma request_served:
  assumes "rate_limit_check w = None"
    and "up (length (calls w)) (resolve_url ep) = rep"
    and "outcome rep = Resolved r" and "ok r" and "body_json r = Some d"
  shows "request up ep w = (Inr d, (arrive (Inr rep) w)\<lparr>calls := calls w @ [resolve_url ep]\<rparr>)"
  using assms by (simp add: request_def Let_def settle_def arrive_def)

lemma fetch_loop_full_pages:
  assumes "length reps = length pages"
    and "\<forall>i<length pages.
           up (length (calls w) + i) (resolve_url (page_url endpoint (page + i))) = reps ! i
           \<and> rate_limit_check (after_replies w (take i reps)) = None
           \<and> (\<exists>r. outcome (reps ! i) = Resolved r \<and> ok r \<and> body_json r = Some (pages ! i))
           \<and> \<not> length (pages ! i) < perPage"
  shows "fetch_loop up endpoint acc page w =
         fetch_loop up endpoint (acc @ concat pages) (page + length pages)
           ((after_replies w reps)\<lparr>calls := calls w @
               map (\<lambda>i. resolve_url (page_url endpoint (page + i))) [0..<length pages]\<rparr>)"
  using assms
proof (induction pages arbitrary: reps w acc page)
  case Nil
  then show ?case by (simp add: after_replies_Nil)
next
  case (Cons d ds)
  from Cons.prems(1) obtain rep rs where reps: "reps = rep # rs" and len: "length rs = length ds"
    by (cases reps) auto
  let ?u = "resolve_url (page_url endpoint page)"
  let ?w1 = "(arrive (Inr rep) w)\<lparr>calls := calls w @ [?u]\<rparr>"
  from Cons.prems(2) have first:
      "up (length (calls w)) ?u = rep" "rate_limit_check w = None"
      "\<exists>r. outcome rep = Resolved r \<and> ok r \<and> body_json r = Some d"
      "\<not> length d < perPage"
    by (auto simp: reps after_replies_Nil)
  then obtain r where r: "outcome rep = Resolved r" "ok r" "body_json r = Some d"
    by blast
  have req: "request up (page_url endpoint page) w = (Inr d, ?w1)"
    by (rule request_served [where up = up and ep = "page_url endpoint page" and rep = rep,
          OF first(2) first(1) r])
  have step: "fetch_loop up endpoint acc page w = fetch_loop up endpoint (acc @ d) (page + 1) ?w1"
    by (subst fetch_loop.simps) (simp add: req first(4))
  have rest: "\<forall>i<length ds.
           up (length (calls ?w1) + i) (resolve_url (page_url endpoint (page + 1 + i))) = rs ! i
           \<and> rate_limit_check (after_replies ?w1 (take i rs)) = None
           \<and> (\<exists>r. outcome (rs ! i) = Resolved r \<and> ok r \<and> body_json r = Some (ds ! i))
           \<and> \<not> length (ds ! i) < perPage"
  proof (intro allI impI)
    fix i assume "i < length ds"
    then have "Suc i < length (d # ds)" by simp
    with Cons.prems(2) have
      "up (length (calls w) + Suc i) (resolve_url (page_url endpoint (page + Suc i))) = reps ! Suc i
           \<and> rate_limit_check (after_replies w (take (Suc i) reps)) = None
           \<and> (\<exists>r. outcome (reps ! Suc i) = Resolved r \<and> ok r \<and> body_json r = Some ((d # ds) ! Suc i))
           \<and> \<not> length ((d # ds) ! Suc i) < perPage"
      by blast
    then show "up (length (calls ?w1) + i) (resolve_url (page_url endpoint (page + 1 + i))) = rs ! i
           \<and> rate_limit_check (after_replies ?w1 (take i rs)) = None
           \<and> (\<exists>r. outcome (rs ! i) = Resolved r \<and> ok r \<and> body_json r = Some (ds ! i))
           \<and> \<not> length (ds ! i) < perPage"
      by (simp add: reps after_replies_Cons after_replies_calls)
  qed
  have urls: "map (\<lambda>i. resolve_url (page_url endpoint (page + i))) [0..<length (d # ds)]
        = ?u # map (\<lambda>i. resolve_url (page_url endpoint (page + 1 + i))) [0..<length ds]"
    by (simp add: upt_rec [of 0] map_Suc_upt [symmetric] del: upt_Suc)
  have "fetch_loop up endpoint (acc @ d) (page + 1) ?w1 =
         fetch_loop up endpoint ((acc @ d) @ concat ds) (page + 1 + length ds)
           ((after_replies ?w1 rs)\<lparr>calls := calls ?w1 @
               map (\<lambda>i. resolve_url (page_url endpoint (page + 1 + i))) [0..<length ds]\<rparr>)"
    by (rule Cons.IH [OF len rest])
  also have "(after_replies ?w1 rs)\<lparr>calls := calls ?w1 @
               map (\<lambda>i. resolve_url (page_url endpoint (page + 1 + i))) [0..<length ds]\<rparr>
      = (after_replies w reps)\<lparr>calls := calls w @
               map (\<lambda>i. resolve_url (page_url endpoint (page + i))) [0..<length (d # ds)]\<rparr>"
    by (simp only: urls) (simp add: reps after_replies_Cons after_replies_calls)
  finally show ?case
    using step by simp
qed

lemma page_replies_Suc:
  "page_replies up endpoint w (Suc n) = page_replies up endpoint w n @ [page_reply up endpoint w n]"
  by (simp add: page_replies_def)

lemma length_page_replies: "length (page_replies up endpoint w n) = n"
  by (simp add: page_replies_def)

lemma nth_page_replies: "i < n \<Longrightarrow> page_replies up endpoint w n ! i = page_reply up endpoint w i"
  by (simp add: page_replies_def)

lemma take_page_replies:
  "i \<le> n \<Longrightarrow> take i (page_replies up endpoint w n) = page_replies up endpoint w i"
  by (simp add: page_replies_def take_map)

text \<open>
  As long as the pages are served and full and the gate is open before each request, the
  loop goes on to the next page.
\<close>

lemma fetchAllPages_full_pages:
  assumes "\<forall>i<length pages. \<exists>r.
             outcome (page_reply up endpoint w i) = Resolved r \<and> ok r \<and> body_json r = Some (pages ! i)"
    and "\<forall>i<length pages. rate_limit_check (after_replies w (page_replies up endpoint w i)) = None"
    and "\<forall>i<length pages. \<not> length (pages ! i) < 100"
  shows "fetchAllPages up endpoint w =
           fetch_loop up endpoint (concat pages) (length pages + 1)
             ((after_replies w (page_replies up endpoint w (length pages)))
                \<lparr>calls := calls w @ map (\<lambda>i. resolve_url (page_url endpoint (i + 1))) [0..<length pages]\<rparr>)"
proof -
  let ?reps = "page_replies up endpoint w (length pages)"
  have pre: "\<forall>i<length pages.
           up (length (calls w) + i) (resolve_url (page_url endpoint (1 + i))) = ?reps ! i
           \<and> rate_limit_check (after_replies w (take i ?reps)) = None
           \<and> (\<exists>r. outcome (?reps ! i) = Resolved r \<and> ok r \<and> body_json r = Some (pages ! i))
           \<and> \<not> length (pages ! i) < perPage"
    using assms
    by (simp add: nth_page_replies take_page_replies perPage_def) (simp add: page_reply_def)
  from fetch_loop_full_pages [where up = up and endpoint = endpoint and page = 1 and w = w
      and pages = pages and reps = ?reps and acc = "[]", OF length_page_replies pre]
  show ?thesis
    by (simp add: fetchAllPages_def add.commute)
qed

text \<open>
  C1, amended. Let the upstream answer the calls for pages 1, 2, ... of the endpoint, made
  with \<open>per_page=100\<close> one after the other, with successful responses, let every page but
  the last hold at least 100 items and the last fewer than 100 (possibly none), and let
  the rate limit gate be open before each of these calls: at the start, and after each
  response but the last has set the clock and the tracker. Then \<open>fetchAllPages\<close> returns
  the items of the pages concatenated in page order, and has called \<open>fetch\<close> exactly once
  per page, in page order, and no further; the clock and the tracker are as the responses
  left them.
\<close>

theorem fetchAllPages_pages:
  assumes "pages \<noteq> []"
    and "\<forall>i<length pages. \<exists>r.
           outcome (page_reply up endpoint w i) = Resolved r \<and> ok r \<and> body_json r = Some (pages ! i)"
    and "\<forall>i<length pages. rate_limit_check (after_replies w (page_replies up endpoint w i)) = None"
    and "\<forall>i<length pages - 1. \<not> length (pages ! i) < 100"
    and "length (last pages) < 100"
  shows "fetchAllPages up endpoint w =
           Some (Inr (concat pages),
                 (after_replies w (page_replies up endpoint w (length pages)))
                   \<lparr>calls := calls w @
                      map (\<lambda>i. resolve_url (page_url endpoint (i + 1))) [0..<length pages]\<rparr>)"
proof -
  from assms(1) obtain ds d where pages: "pages = ds @ [d]"
    by (cases pages rule: rev_cases) auto
  let ?k = "length ds"
  let ?urls = "map (\<lambda>i. resolve_url (page_url endpoint (i + 1))) [0..<?k]"
  let ?v = "after_replies w (page_replies up endpoint w ?k)"
  let ?w1 = "?v\<lparr>calls := calls w @ ?urls\<rparr>"
  let ?rep = "page_reply up endpoint w ?k"
  have served: "\<forall>i<length ds. \<exists>r.
             outcome (page_reply up endpoint w i) = Resolved r \<and> ok r \<and> body_json r = Some (ds ! i)"
  proof (intro allI impI)
    fix i assume i: "i < length ds"
    with assms(2) [rule_format, of i]
    show "\<exists>r. outcome (page_reply up endpoint w i) = Resolved r \<and> ok r \<and> body_json r = Some (ds ! i)"
      by (simp add: pages nth_append)
  qed
  have gate: "\<forall>i<length ds. rate_limit_check (after_replies w (page_replies up endpoint w i)) = None"
    using assms(3) by (simp add: pages)
  have full: "\<forall>i<length ds. \<not> length (ds ! i) < 100"
    using assms(4) by (simp add: pages nth_append)
  have short: "length d < perPage"
    using assms(5) by (simp add: pages perPage_def)
  from assms(2) [rule_format, of ?k]
  obtain r where r: "outcome ?rep = Resolved r" "ok r" "body_json r = Some d"
    by (auto simp: pages)
  have open_last: "rate_limit_check ?w1 = None"
    using assms(3) [rule_format, of ?k] by (simp add: pages)
  have up_last: "up (length (calls ?w1)) (resolve_url (page_url endpoint (?k + 1))) = ?rep"
    by (simp add: page_reply_def)
  have req: "request up (page_url endpoint (?k + 1)) ?w1
      = (Inr d, (arrive (Inr ?rep) ?w1)\<lparr>calls := calls ?w1 @ [resolve_url (page_url endpoint (?k + 1))]\<rparr>)"
    by (rule request_served [where up = up and ep = "page_url endpoint (?k + 1)" and rep = ?rep,
          OF open_last up_last r])
  have last_world: "(arrive (Inr ?rep) ?w1)\<lparr>calls := calls ?w1 @ [resolve_url (page_url endpoint (?k + 1))]\<rparr>
      = (after_replies w (page_replies up endpoint w (length pages)))
          \<lparr>calls := calls w @ map (\<lambda>i. resolve_url (page_url endpoint (i + 1))) [0..<length pages]\<rparr>"
    by (simp add: pages page_replies_Suc after_replies_snoc arrive_calls)
  have "fetchAllPages up endpoint w = fetch_loop up endpoint (concat ds) (?k + 1) ?w1"
    by (rule fetchAllPages_full_pages [OF served gate full])
  also have "\<dots> = Some (Inr (concat ds @ d),
      (arrive (Inr ?rep) ?w1)\<lparr>calls := calls ?w1 @ [resolve_url (page_url endpoint (?k + 1))]\<rparr>)"
    using req short by (subst fetch_loop.simps) simp
  finally show ?thesis
    by (simp only: last_world) (simp add: pages)
qed

text \<open>
  When the gate is closed after a number of full pages (none included), the request for
  the next page throws: \<open>fetchAllPages\<close> fails with the rate limit error after one call
  per page served, and the items of these pages are lost.
\<close>

lemma fetchAllPages_gate_closed:
  assumes "\<forall>i<length pages. \<exists>r.
             outcome (page_reply up endpoint w i) = Resolved r \<and> ok r \<and> body_json r = Some (pages ! i)"
    and "\<forall>i<length pages. rate_limit_check (after_replies w (page_replies up endpoint w i)) = None"
    and "\<forall>i<length pages. \<not> length (pages ! i) < 100"
    and "rate_limit_check (after_replies w (page_replies up endpoint w (length pages))) = Some e"
  shows "fetchAllPages up endpoint w =
           Some (Inl e,
                 (after_replies w (page_replies up endpoint w (length pages)))
                   \<lparr>calls := calls w @
                      map (\<lambda>i. resolve_url (page_url endpoint (i + 1))) [0..<length pages]\<rparr>)"
proof -
  let ?w1 = "(after_replies w (page_replies up endpoint w (length pages)))
      \<lparr>calls := calls w @ map (\<lambda>i. resolve_url (page_url endpoint (i + 1))) [0..<length pages]\<rparr>"
  have req: "request up (page_url endpoint (length pages + 1)) ?w1 = (Inl e, ?w1)"
    using assms(4) by (simp add: request_def)
  have "fetchAllPages up endpoint w = fetch_loop up endpoint (concat pages) (length pages + 1) ?w1"
    by (rule fetchAllPages_full_pages [OF assms(1,2,3)])
  also have "\<dots> = Some (Inl e, ?w1)"
    using req by (subst fetch_loop.simps) simp
  finally show ?thesis .
qed

lemma length_items_from: "length (items_from a b) = b - a"
  by (simp add: items_from_def)

lemma items_from_append: "a \<le> b \<Longrightarrow> b \<le> c \<Longrightarrow> items_from a b @ items_from b c = items_from a c"
  unfolding items_from_def using upt_add_eq_append [of a b "c - b"] by simp

lemma repos_page_urls:
  "resolve_url (page_url ''/orgs/acme/repos'' (Suc 0)) = ''https://api.github.com/orgs/acme/repos?per_page=100&page=1''"
  "resolve_url (page_url ''/orgs/acme/repos'' (Suc (Suc 0))) = ''https://api.github.com/orgs/acme/repos?per_page=100&page=2''"
  "resolve_url (page_url ''/orgs/acme/repos'' 2) = ''https://api.github.com/orgs/acme/repos?per_page=100&page=2''"
  "resolve_url (page_url ''/orgs/acme/repos'' 3) = ''https://api.github.com/orgs/acme/repos?per_page=100&page=3''"
proof -
  show "resolve_url (page_url ''/orgs/acme/repos'' (Suc 0)) = ''https://api.github.com/orgs/acme/repos?per_page=100&page=1''"
    and 2: "resolve_url (page_url ''/orgs/acme/repos'' 2) = ''https://api.github.com/orgs/acme/repos?per_page=100&page=2''"
    and "resolve_url (page_url ''/orgs/acme/repos'' 3) = ''https://api.github.com/orgs/acme/repos?per_page=100&page=3''"
    by (simp_all add: resolve_url_def startsWith_def baseUrl_def page_url_def perPage_def
        show_nat.simps digit_char_def)
  have n: "Suc (Suc 0) = 2"
    by simp
  show "resolve_url (page_url ''/orgs/acme/repos'' (Suc (Suc 0))) = ''https://api.github.com/orgs/acme/repos?per_page=100&page=2''"
    using 2 by (simp only: n)
qed

lemma issues_page_urls:
  "resolve_url (page_url ''/repos/acme/app/issues?state=all'' (Suc 0)) = ''https://api.github.com/repos/acme/app/issues?state=all&per_page=100&page=1''"
  "resolve_url (page_url ''/repos/acme/app/issues?state=all'' (Suc (Suc 0))) = ''https://api.github.com/repos/acme/app/issues?state=all&per_page=100&page=2''"
  "resolve_url (page_url ''/repos/acme/app/issues?state=all'' 2) = ''https://api.github.com/repos/acme/app/issues?state=all&per_page=100&page=2''"
  "resolve_url (page_url ''/repos/acme/app/issues?state=all'' 3) = ''https://api.github.com/repos/acme/app/issues?state=all&per_page=100&page=3''"
  "resolve_url (page_url ''/repos/acme/app/issues?state=all'' 4) = ''https://api.github.com/repos/acme/app/issues?state=all&per_page=100&page=4''"
proof -
  show "resolve_url (page_url ''/repos/acme/app/issues?state=all'' (Suc 0)) = ''https://api.github.com/repos/acme/app/issues?state=all&per_page=100&page=1''"
    and 2: "resolve_url (page_url ''/repos/acme/app/issues?state=all'' 2) = ''https://api.github.com/repos/acme/app/issues?state=all&per_page=100&page=2''"
    and "resolve_url (page_url ''/repos/acme/app/issues?state=all'' 3) = ''https://api.github.com/repos/acme/app/issues?state=all&per_page=100&page=3''"
    and "resolve_url (page_url ''/repos/acme/app/issues?state=all'' 4) = ''https://api.github.com/repos/acme/app/issues?state=all&per_page=100&page=4''"
    by (simp_all add: resolve_url_def startsWith_def baseUrl_def page_url_def perPage_def
        show_nat.simps digit_char_def)
  have n: "Suc (Suc 0) = 2"
    by simp
  show "resolve_url (page_url ''/repos/acme/app/issues?state=all'' (Suc (Suc 0))) = ''https://api.github.com/repos/acme/app/issues?state=all&per_page=100&page=2''"
    using 2 by (simp only: n)
qed

text \<open>Responses without rate limit headers leave the tracker as it was.\<close>

lemma after_replies_plain:
  assumes "\<forall>rep\<in>set reps. \<exists>b. outcome rep = Resolved (plain_response b)"
  shows "rateLimitInfo (after_replies w reps) = rateLimitInfo w"
  using assms
proof (induction reps arbitrary: w)
  case Nil
  then show ?case by (simp add: after_replies_Nil)
next
  case (Cons rep reps)
  then obtain b where b: "outcome rep = Resolved (plain_response b)"
    by auto
  have "rateLimitInfo (arrive (Inr rep) w) = rateLimitInfo w"
    by (simp add: arrive_def b Let_def update_rate_limit_def plain_response_def)
  with Cons show ?case
    by (simp add: after_replies_Cons)
qed

lemma gate_open_plain:
  assumes "\<not> js_le (remaining (rateLimitInfo w)) (Finite 0)"
    and "\<forall>i<n. \<exists>b. outcome (page_reply up endpoint w i) = Resolved (plain_response b)"
    and "i \<le> n"
  shows "rate_limit_check (after_replies w (page_replies up endpoint w i)) = None"
proof -
  have "\<forall>rep\<in>set (page_replies up endpoint w i). \<exists>b. outcome rep = Resolved (plain_response b)"
    using assms(2,3) by (auto simp: page_replies_def)
  then have "rateLimitInfo (after_replies w (page_replies up endpoint w i)) = rateLimitInfo w"
    by (rule after_replies_plain)
  with assms(1) show ?thesis
    by (simp add: rate_limit_check_def)
qed

lemma fresh_world_quota: "\<not> js_le (remaining (rateLimitInfo fresh_world)) (Finite 0)"
  by (simp add: fresh_world_def initial_rateLimitInfo_def)

lemma parseInt_examples: "parseInt ''0'' = Finite 0" "parseInt ''40'' = Finite 40" "parseInt ''60'' = Finite 60"
  by (simp_all add: parseInt_def is_white_space_def is_digit_def digits_value_def digit_value_def)

lemma metered_pages_replies:
  "page_reply (metered_pages resetAt) ''/orgs/acme/repos'' w 0
     = \<lparr>outcome = Resolved (metered_response ''0'' resetAt (Some (items_from 0 100))), clock = 50000\<rparr>"
  "page_reply (metered_pages resetAt) ''/orgs/acme/repos'' w (Suc 0)
     = \<lparr>outcome = Resolved (metered_response ''0'' ''60'' (Some (items_from 100 137))), clock = 50000\<rparr>"
  by (simp_all add: page_reply_def repos_page_urls metered_pages_def)

lemma arrive_metered:
  "resetAt \<noteq> [] \<Longrightarrow>
   arrive (Inr \<lparr>outcome = Resolved (metered_response ''0'' resetAt b), clock = c\<rparr>) w
     = w\<lparr>now := c,
         rateLimitInfo := (rateLimitInfo w)\<lparr>remaining := Finite 0,
                            reset := js_mul (parseInt resetAt) (Finite 1000)\<rparr>\<rparr>"
  by (simp add: arrive_def Let_def update_rate_limit_def metered_response_def truthy_string_def
      parseInt_examples)

lemma page_replies_one: "page_replies up endpoint w (Suc 0) = [page_reply up endpoint w 0]"
  by (simp add: page_replies_def)

lemma page_replies_two:
  "page_replies up endpoint w (Suc (Suc 0)) = [page_reply up endpoint w 0, page_reply up endpoint w (Suc 0)]"
  by (simp add: page_replies_def)

lemma after_first_metered:
  "resetAt \<noteq> [] \<Longrightarrow>
   after_replies w (page_replies (metered_pages resetAt) ''/orgs/acme/repos'' w (Suc 0))
     = w\<lparr>now := 50000,
         rateLimitInfo := (rateLimitInfo w)\<lparr>remaining := Finite 0,
                            reset := js_mul (parseInt resetAt) (Finite 1000)\<rparr>\<rparr>"
  by (simp add: page_replies_one metered_pages_replies after_replies_Cons after_replies_Nil
      arrive_metered)

lemma after_second_metered:
  "resetAt \<noteq> [] \<Longrightarrow>
   after_replies w (page_replies (metered_pages resetAt) ''/orgs/acme/repos'' w (Suc (Suc 0)))
     = w\<lparr>now := 50000,
         rateLimitInfo := (rateLimitInfo w)\<lparr>remaining := Finite 0, reset := Finite 60000\<rparr>\<rparr>"
  by (simp add: page_replies_two metered_pages_replies after_replies_Cons after_replies_Nil
      arrive_metered parseInt_examples)

theorem fetchAllPages_pages_witness:
  "map_option fst (fetchAllPages three_pages ''/orgs/acme/repos'' fresh_world) = Some (Inr (items_from 0 237))
   \<and> map_option (calls \<circ> snd) (fetchAllPages three_pages ''/orgs/acme/repos'' fresh_world)
       = Some [''https://api.github.com/orgs/acme/repos?per_page=100&page=1'',
               ''https://api.github.com/orgs/acme/repos?per_page=100&page=2'',
               ''https://api.github.com/orgs/acme/repos?per_page=100&page=3'']
   \<and> length (items_from 0 237) = 237
   \<and> map_option fst (fetchAllPages four_pages ''/repos/acme/app/issues?state=all'' fresh_world)
       = Some (Inr (items_from 0 300))
   \<and> length (items_from 0 300) = 300
   \<and> map_option (calls \<circ> snd)
        (fetchAllPages four_pages ''/repos/acme/app/issues?state=all'' fresh_world)
       = Some [''https://api.github.com/repos/acme/app/issues?state=all&per_page=100&page=1'',
               ''https://api.github.com/repos/acme/app/issues?state=all&per_page=100&page=2'',
               ''https://api.github.com/repos/acme/app/issues?state=all&per_page=100&page=3'',
               ''https://api.github.com/repos/acme/app/issues?state=all&per_page=100&page=4'']
   \<and> map_option fst (fetchAllPages (metered_pages ''40'') ''/orgs/acme/repos'' (limited_world 40000))
       = Some (Inr (items_from 0 137))
   \<and> length (items_from 0 137) = 137
   \<and> map_option (calls \<circ> snd)
        (fetchAllPages (metered_pages ''40'') ''/orgs/acme/repos'' (limited_world 40000))
       = Some [''https://api.github.com/orgs/acme/repos?per_page=100&page=1'',
               ''https://api.github.com/orgs/acme/repos?per_page=100&page=2'']
   \<and> map_option (rateLimitInfo \<circ> snd)
        (fetchAllPages (metered_pages ''40'') ''/orgs/acme/repos'' (limited_world 40000))
       = Some \<lparr>remaining = Finite 0, reset = Finite 60000, limit = Finite 5000\<rparr>"
proof -
  let ?e3 = "''/orgs/acme/repos''" and ?e4 = "''/repos/acme/app/issues?state=all''"
  let ?p3 = "[items_from 0 100, items_from 100 200, items_from 200 237]"
  let ?p4 = "[items_from 0 100, items_from 100 200, items_from 200 300, []::nat list]"
  let ?p5 = "[items_from 0 100, items_from 100 137]"
  let ?m = "metered_pages ''40''"
  let ?l = "limited_world 40000"
  have n: "Suc (Suc 0) = 2"
    by simp
  have p3: "\<forall>i<length ?p3.
       outcome (page_reply three_pages ?e3 fresh_world i) = Resolved (plain_response (Some (?p3 ! i)))"
  proof (intro allI impI)
    fix i assume "i < length ?p3"
    then have "i = 0 \<or> i = 1 \<or> i = 2" by auto
    then show "outcome (page_reply three_pages ?e3 fresh_world i) = Resolved (plain_response (Some (?p3 ! i)))"
      by (elim disjE) (simp_all add: page_reply_def repos_page_urls three_pages_def)
  qed
  have p4: "\<forall>i<length ?p4.
       outcome (page_reply four_pages ?e4 fresh_world i) = Resolved (plain_response (Some (?p4 ! i)))"
  proof (intro allI impI)
    fix i assume "i < length ?p4"
    then have "i = 0 \<or> i = 1 \<or> i = 2 \<or> i = 3" by auto
    then show "outcome (page_reply four_pages ?e4 fresh_world i) = Resolved (plain_response (Some (?p4 ! i)))"
      by (elim disjE) (simp_all add: page_reply_def issues_page_urls four_pages_def)
  qed
  have s3: "\<forall>i<length ?p3. \<exists>r.
       outcome (page_reply three_pages ?e3 fresh_world i) = Resolved r \<and> ok r \<and> body_json r = Some (?p3 ! i)"
  proof (intro allI impI)
    fix i assume "i < length ?p3"
    with p3 have "outcome (page_reply three_pages ?e3 fresh_world i) = Resolved (plain_response (Some (?p3 ! i)))"
      by blast
    then show "\<exists>r. outcome (page_reply three_pages ?e3 fresh_world i) = Resolved r \<and> ok r
        \<and> body_json r = Some (?p3 ! i)"
      by (intro exI [of _ "plain_response (Some (?p3 ! i))"]) (simp add: plain_response_def)
  qed
  have s4: "\<forall>i<length ?p4. \<exists>r.
       outcome (page_reply four_pages ?e4 fresh_world i) = Resolved r \<and> ok r \<and> body_json r = Some (?p4 ! i)"
  proof (intro allI impI)
    fix i assume "i < length ?p4"
    with p4 have "outcome (page_reply four_pages ?e4 fresh_world i) = Resolved (plain_response (Some (?p4 ! i)))"
      by blast
    then show "\<exists>r. outcome (page_reply four_pages ?e4 fresh_world i) = Resolved r \<and> ok r
        \<and> body_json r = Some (?p4 ! i)"
      by (intro exI [of _ "plain_response (Some (?p4 ! i))"]) (simp add: plain_response_def)
  qed
  have s5: "\<forall>i<length ?p5. \<exists>r.
       outcome (page_reply ?m ?e3 ?l i) = Resolved r \<and> ok r \<and> body_json r = Some (?p5 ! i)"
  proof (intro allI impI)
    fix i assume "i < length ?p5"
    then have "i = 0 \<or> i = 1" by auto
    then show "\<exists>r. outcome (page_reply ?m ?e3 ?l i) = Resolved r \<and> ok r \<and> body_json r = Some (?p5 ! i)"
      by (elim disjE) (simp_all add: metered_pages_replies metered_response_def)
  qed
  have q3: "\<forall>i<length ?p3. \<exists>b. outcome (page_reply three_pages ?e3 fresh_world i) = Resolved (plain_response b)"
    using p3 by blast
  have q4: "\<forall>i<length ?p4. \<exists>b. outcome (page_reply four_pages ?e4 fresh_world i) = Resolved (plain_response b)"
    using p4 by blast
  have g3: "\<forall>i<length ?p3. rate_limit_check (after_replies fresh_world (page_replies three_pages ?e3 fresh_world i)) = None"
  proof (intro allI impI)
    fix i assume "i < length ?p3"
    then have "i \<le> length ?p3" by simp
    from gate_open_plain [OF fresh_world_quota q3 this]
    show "rate_limit_check (after_replies fresh_world (page_replies three_pages ?e3 fresh_world i)) = None" .
  qed
  have g4: "\<forall>i<length ?p4. rate_limit_check (after_replies fresh_world (page_replies four_pages ?e4 fresh_world i)) = None"
  proof (intro allI impI)
    fix i assume "i < length ?p4"
    then have "i \<le> length ?p4" by simp
    from gate_open_plain [OF fresh_world_quota q4 this]
    show "rate_limit_check (after_replies fresh_world (page_replies four_pages ?e4 fresh_world i)) = None" .
  qed
  have g5: "\<forall>i<length ?p5. rate_limit_check (after_replies ?l (page_replies ?m ?e3 ?l i)) = None"
  proof (intro allI impI)
    fix i assume "i < length ?p5"
    then have "i = 0 \<or> i = Suc 0" by auto
    then show "rate_limit_check (after_replies ?l (page_replies ?m ?e3 ?l i)) = None"
    proof
      assume "i = 0"
      then show ?thesis
        by (simp add: page_replies_def after_replies_Nil rate_limit_check_def limited_world_def)
    next
      assume "i = Suc 0"
      then show ?thesis
        by (simp add: after_first_metered parseInt_examples rate_limit_check_def limited_world_def)
    qed
  qed
  have f3: "\<forall>i<length ?p3 - 1. \<not> length (?p3 ! i) < 100" "length (last ?p3) < 100"
    by (simp_all add: All_less_Suc length_items_from)
  have f4: "\<forall>i<length ?p4 - 1. \<not> length (?p4 ! i) < 100" "length (last ?p4) < 100"
    by (simp_all add: All_less_Suc length_items_from)
  have f5: "\<forall>i<length ?p5 - 1. \<not> length (?p5 ! i) < 100" "length (last ?p5) < 100"
    by (simp_all add: All_less_Suc length_items_from)
  have c3: "concat ?p3 = items_from 0 237"
    by (simp add: items_from_append)
  have c4: "concat ?p4 = items_from 0 300"
    by (simp add: items_from_append)
  have c5: "concat ?p5 = items_from 0 137"
    by (simp add: items_from_append)
  have m3: "map (\<lambda>i. resolve_url (page_url ?e3 (i + 1))) [0..<length ?p3]
      = [''https://api.github.com/orgs/acme/repos?per_page=100&page=1'',
         ''https://api.github.com/orgs/acme/repos?per_page=100&page=2'',
         ''https://api.github.com/orgs/acme/repos?per_page=100&page=3'']"
    by (simp add: upt_rec n repos_page_urls del: upt_Suc)
  have m4: "map (\<lambda>i. resolve_url (page_url ?e4 (i + 1))) [0..<length ?p4]
      = [''https://api.github.com/repos/acme/app/issues?state=all&per_page=100&page=1'',
         ''https://api.github.com/repos/acme/app/issues?state=all&per_page=100&page=2'',
         ''https://api.github.com/repos/acme/app/issues?state=all&per_page=100&page=3'',
         ''https://api.github.com/repos/acme/app/issues?state=all&per_page=100&page=4'']"
    by (simp add: upt_rec n issues_page_urls del: upt_Suc)
  have m5: "map (\<lambda>i. resolve_url (page_url ?e3 (i + 1))) [0..<length ?p5]
      = [''https://api.github.com/orgs/acme/repos?per_page=100&page=1'',
         ''https://api.github.com/orgs/acme/repos?per_page=100&page=2'']"
    by (simp add: upt_rec n repos_page_urls del: upt_Suc)
  have e: "calls fresh_world = []" "calls ?l = []"
    by (simp_all add: fresh_world_def limited_world_def)
  have a5: "rateLimitInfo (after_replies ?l (page_replies ?m ?e3 ?l (length ?p5)))
      = \<lparr>remaining = Finite 0, reset = Finite 60000, limit = Finite 5000\<rparr>"
    by (simp add: after_second_metered limited_world_def)
  have ne: "?p3 \<noteq> []" "?p4 \<noteq> []" "?p5 \<noteq> []"
    by simp_all
  note t3 = fetchAllPages_pages [where up = three_pages and endpoint = ?e3 and pages = ?p3
      and w = fresh_world, OF ne(1) s3 g3 f3]
  note t4 = fetchAllPages_pages [where up = four_pages and endpoint = ?e4 and pages = ?p4
      and w = fresh_world, OF ne(2) s4 g4 f4]
  note t5 = fetchAllPages_pages [where up = ?m and endpoint = ?e3 and pages = ?p5
      and w = ?l, OF ne(3) s5 g5 f5]
  have r3: "map_option fst (fetchAllPages three_pages ?e3 fresh_world) = Some (Inr (items_from 0 237))"
    "map_option (calls \<circ> snd) (fetchAllPages three_pages ?e3 fresh_world)
       = Some [''https://api.github.com/orgs/acme/repos?per_page=100&page=1'',
               ''https://api.github.com/orgs/acme/repos?per_page=100&page=2'',
               ''https://api.github.com/orgs/acme/repos?per_page=100&page=3'']"
    by (simp_all only: t3 c3 m3 e append_Nil option.map fst_conv snd_conv comp_apply)
       simp_all
  have r4: "map_option fst (fetchAllPages four_pages ?e4 fresh_world) = Some (Inr (items_from 0 300))"
    "map_option (calls \<circ> snd) (fetchAllPages four_pages ?e4 fresh_world)
       = Some [''https://api.github.com/repos/acme/app/issues?state=all&per_page=100&page=1'',
               ''https://api.github.com/repos/acme/app/issues?state=all&per_page=100&page=2'',
               ''https://api.github.com/repos/acme/app/issues?state=all&per_page=100&page=3'',
               ''https://api.github.com/repos/acme/app/issues?state=all&per_page=100&page=4'']"
    by (simp_all only: t4 c4 m4 e append_Nil option.map fst_conv snd_conv comp_apply)
       simp_all
  have r5: "map_option fst (fetchAllPages ?m ?e3 ?l) = Some (Inr (items_from 0 137))"
    "map_option (calls \<circ> snd) (fetchAllPages ?m ?e3 ?l)
       = Some [''https://api.github.com/orgs/acme/repos?per_page=100&page=1'',
               ''https://api.github.com/orgs/acme/repos?per_page=100&page=2'']"
    "map_option (rateLimitInfo \<circ> snd) (fetchAllPages ?m ?e3 ?l)
       = Some \<lparr>remaining = Finite 0, reset = Finite 60000, limit = Finite 5000\<rparr>"
    by (simp_all only: t5 c5 m5 e append_Nil option.map fst_conv snd_conv comp_apply)
       (simp_all add: a5 [simplified])
  from r3 r4 r5 show ?thesis
    by (simp add: length_items_from)
qed

text \<open>
  C1 as stated fails when a page leaves the tracker without quota. The upstream holds
  pages of 100 and of 37 items; the response for page 1 carries
  \<open>x-ratelimit-remaining: 0\<close> and a reset time 10 seconds ahead of the clock. The request
  for page 2 throws at the gate: \<open>fetchAllPages\<close> fails with the rate limit error after
  one call, and returns none of the 137 items.
\<close>

theorem exhausted_between_pages_counterexample:
  "outcome (metered_pages ''60'' 0 ''https://api.github.com/orgs/acme/repos?per_page=100&page=1'')
     = Resolved (metered_response ''0'' ''60'' (Some (items_from 0 100)))
   \<and> outcome (metered_pages ''60'' 1 ''https://api.github.com/orgs/acme/repos?per_page=100&page=2'')
     = Resolved (metered_response ''0'' ''60'' (Some (items_from 100 137)))
   \<and> length (items_from 0 100) = 100
   \<and> length (items_from 100 137) = 37
   \<and> returned (fetchAllPages (metered_pages ''60'') ''/orgs/acme/repos'' fresh_world)
       = Some (Inl (RateLimitExceeded (Finite 10)))
   \<and> map_option (calls \<circ> snd) (fetchAllPages (metered_pages ''60'') ''/orgs/acme/repos'' fresh_world)
       = Some [''https://api.github.com/orgs/acme/repos?per_page=100&page=1'']"
proof -
  let ?e = "''/orgs/acme/repos''"
  let ?m = "metered_pages ''60''"
  let ?p = "[items_from 0 100]"
  have s: "\<forall>i<length ?p. \<exists>r.
       outcome (page_reply ?m ?e fresh_world i) = Resolved r \<and> ok r \<and> body_json r = Some (?p ! i)"
    by (simp add: metered_pages_replies metered_response_def)
  have g: "\<forall>i<length ?p. rate_limit_check (after_replies fresh_world (page_replies ?m ?e fresh_world i)) = None"
    by (simp add: page_replies_def after_replies_Nil rate_limit_check_def fresh_world_def
        initial_rateLimitInfo_def)
  have f: "\<forall>i<length ?p. \<not> length (?p ! i) < 100"
    by (simp add: length_items_from)
  have c: "rate_limit_check (after_replies fresh_world (page_replies ?m ?e fresh_world (length ?p)))
      = Some (RateLimitExceeded (Finite 10))"
    by (simp add: after_first_metered parseInt_examples rate_limit_check_def fresh_world_def
        initial_rateLimitInfo_def Let_def)
  have m: "calls fresh_world @ map (\<lambda>i. resolve_url (page_url ?e (i + 1))) [0..<length ?p]
      = [''https://api.github.com/orgs/acme/repos?per_page=100&page=1'']"
    by (simp add: repos_page_urls fresh_world_def)
  note t = fetchAllPages_gate_closed [where up = ?m and endpoint = ?e and pages = ?p
      and w = fresh_world, OF s g f c]
  have r: "returned (fetchAllPages ?m ?e fresh_world) = Some (Inl (RateLimitExceeded (Finite 10)))"
    "map_option (calls \<circ> snd) (fetchAllPages ?m ?e fresh_world)
       = Some [''https://api.github.com/orgs/acme/repos?per_page=100&page=1'']"
    by (simp_all only: t m returned_def option.map fst_conv snd_conv comp_apply)
       simp_all
  have u: "outcome (?m 0 ''https://api.github.com/orgs/acme/repos?per_page=100&page=1'')
     = Resolved (metered_response ''0'' ''60'' (Some (items_from 0 100)))"
    "outcome (?m 1 ''https://api.github.com/orgs/acme/repos?per_page=100&page=2'')
     = Resolved (metered_response ''0'' ''60'' (Some (items_from 100 137)))"
    by (simp_all add: metered_pages_def)
  from r u show ?thesis
    by (simp add: length_items_from)
qed

subsection \<open>Running the normalizers on a cache miss\<close>

lemma fetchAllPages_single_page:
  "request up (page_url endpoint 1) w = (Inr d, w') \<Longrightarrow> length d < perPage
   \<Longrightarrow> fetchAllPages up endpoint w = Some (Inr d, w')"
  unfolding fetchAllPages_def by (subst fetch_loop.simps) simp

lemma fetchAllPages_first_fails:
  "request up (page_url endpoint 1) w = (Inl e, w')
   \<Longrightarrow> fetchAllPages up endpoint w = Some (Inl e, w')"
  unfolding fetchAllPages_def by (subst fetch_loop.simps) simp

lemma update_rate_limit_plain: "update_rate_limit (plain_response b) info = info"
  by (simp add: update_rate_limit_def plain_response_def)

lemma request_steady_plain:
  "rate_limit_check w = None \<Longrightarrow>
   request (steady_upstream (plain_response (Some d))) endpoint w
     = (Inr d, w\<lparr>calls := calls w @ [resolve_url endpoint], now := 50000\<rparr>)"
  by (simp add: request_def steady_upstream_def Let_def update_rate_limit_plain)
     (simp add: settle_def plain_response_def)

lemma fetchAllPages_steady_plain:
  "rate_limit_check w = None \<Longrightarrow> length d < 100 \<Longrightarrow>
   fetchAllPages (steady_upstream (plain_response (Some d))) endpoint w
     = Some (Inr d, w\<lparr>calls := calls w @ [resolve_url (page_url endpoint 1)], now := 50000\<rparr>)"
  by (rule fetchAllPages_single_page) (simp_all add: request_steady_plain perPage_def)

lemma fresh_world_check: "rate_limit_check fresh_world = None"
  by (simp add: rate_limit_check_def fresh_world_def initial_rateLimitInfo_def)

lemma fresh_world_miss: "cache_get (now fresh_world) key (cache fresh_world) = (None, cache fresh_world)"
  by (simp add: cache_get_def fresh_world_def)

lemma getRepositoryPulls_miss:
  assumes "fst (cache_get (now w) (''pulls:'' @ owner @ ''/'' @ repo) (cache w)) = None"
    and "fetchAllPages up (''/repos/'' @ owner @ ''/'' @ repo @ ''/pulls?state=all'')
           (w\<lparr>cache := snd (cache_get (now w) (''pulls:'' @ owner @ ''/'' @ repo) (cache w))\<rparr>)
         = Some (Inr pulls, w2)"
  shows "getRepositoryPulls up owner repo w =
     Some (Inr (Items (map (normalize_pull owner repo) pulls)),
           w2\<lparr>cache := cache_set (now w2) (''pulls:'' @ owner @ ''/'' @ repo)
                  (Items (map (normalize_pull owner repo) pulls)) (cache w2)\<rparr>)"
  using assms by (simp add: getRepositoryPulls_def Let_def)

lemma getRepositoryIssues_miss:
  assumes "fst (cache_get (now w) (''issues:'' @ owner @ ''/'' @ repo) (cache w)) = None"
    and "fetchAllPages up (''/repos/'' @ owner @ ''/'' @ repo @ ''/issues?state=all'')
           (w\<lparr>cache := snd (cache_get (now w) (''issues:'' @ owner @ ''/'' @ repo) (cache w))\<rparr>)
         = Some (Inr issues, w2)"
  shows "getRepositoryIssues up owner repo w =
     Some (Inr (Items (map (normalize_issue owner repo)
                  (filter (\<lambda>issue. \<not> pull_request_truthy issue) issues))),
           w2\<lparr>cache := cache_set (now w2) (''issues:'' @ owner @ ''/'' @ repo)
                  (Items (map (normalize_issue owner repo)
                     (filter (\<lambda>issue. \<not> pull_request_truthy issue) issues))) (cache w2)\<rparr>)"
  using assms by (simp add: getRepositoryIssues_def Let_def)

lemma getRepositoryPulls_steady:
  "length pulls < 100 \<Longrightarrow>
   returned (getRepositoryPulls (steady_upstream (plain_response (Some pulls))) owner repo fresh_world)
     = Some (Inr (Items (map (normalize_pull owner repo) pulls)))"
  by (subst getRepositoryPulls_miss)
     (simp_all add: fresh_world_miss fetchAllPages_steady_plain fresh_world_check returned_def)

lemma getRepositoryIssues_steady:
  "length issues < 100 \<Longrightarrow>
   returned (getRepositoryIssues (steady_upstream (plain_response (Some issues))) owner repo fresh_world)
     = Some (Inr (Items (map (normalize_issue owner repo)
                  (filter (\<lambda>issue. \<not> pull_request_truthy issue) issues))))"
  by (subst getRepositoryIssues_miss)
     (simp_all add: fresh_world_miss fetchAllPages_steady_plain fresh_world_check returned_def)

lemma show_int_9001: "show_int 9001 = ''9001''"
  by (simp add: show_int_def show_nat.simps digit_char_def)

subsection \<open>Pull requests\<close>

text \<open>
  C4, amended. On a cache miss \<open>getRepositoryPulls\<close> returns one item per fetched record,
  in order, of type \<open>pr\<close>. The item's state is \<open>merged\<close> when \<open>merged_at\<close> is a non-empty
  string, whatever the raw state; it is the raw state when \<open>merged_at\<close> is \<open>null\<close> or the
  empty string. \<open>isDraft\<close> is the raw \<open>draft\<close> flag.
\<close>

theorem getRepositoryPulls_state:
  assumes "fst (cache_get (now w) (''pulls:'' @ owner @ ''/'' @ repo) (cache w)) = None"
    and "fetchAllPages up (''/repos/'' @ owner @ ''/'' @ repo @ ''/pulls?state=all'')
           (w\<lparr>cache := snd (cache_get (now w) (''pulls:'' @ owner @ ''/'' @ repo) (cache w))\<rparr>)
         = Some (Inr pulls, w2)"
  shows "\<exists>items. returned (getRepositoryPulls up owner repo w) = Some (Inr (Items items))
     \<and> length items = length pulls
     \<and> (\<forall>i<length pulls.
          item_type (items ! i) = PR
          \<and> item_state (items ! i) =
              (case pr_merged_at (pulls ! i) of
                 None \<Rightarrow> Some (pr_state (pulls ! i))
               | Some m \<Rightarrow> if m = [] then Some (pr_state (pulls ! i)) else Some ''merged'')
          \<and> item_isDraft (items ! i) = Some (pr_draft (pulls ! i)))"
  by (simp add: getRepositoryPulls_miss [OF assms] returned_def normalize_pull_def
      truthy_string_def split: option.splits)

theorem getRepositoryPulls_state_witness:
  "\<exists>items. returned (getRepositoryPulls
        (steady_upstream (plain_response (Some [a_pull ''closed'' (Some ''2024-03-01T00:00:00Z''),
                                               a_pull ''open'' None])))
        ''acme'' ''app'' fresh_world) = Some (Inr (Items items))
     \<and> map item_state items = [Some ''merged'', Some ''open'']
     \<and> map item_isDraft items = [Some True, Some True]"
proof -
  let ?pulls = "[a_pull ''closed'' (Some ''2024-03-01T00:00:00Z''), a_pull ''open'' None]"
  let ?up = "steady_upstream (plain_response (Some ?pulls))"
  have miss: "fst (cache_get (now fresh_world) (''pulls:'' @ ''acme'' @ ''/'' @ ''app'') (cache fresh_world)) = None"
    by (simp add: fresh_world_miss)
  have fetched: "fetchAllPages ?up (''/repos/'' @ ''acme'' @ ''/'' @ ''app'' @ ''/pulls?state=all'')
      (fresh_world\<lparr>cache := snd (cache_get (now fresh_world) (''pulls:'' @ ''acme'' @ ''/'' @ ''app'')
         (cache fresh_world))\<rparr>)
      = Some (Inr ?pulls, fresh_world\<lparr>calls := calls fresh_world
           @ [resolve_url (page_url (''/repos/'' @ ''acme'' @ ''/'' @ ''app'' @ ''/pulls?state=all'') 1)],
           now := 50000\<rparr>)"
    by (subst fetchAllPages_steady_plain) (simp_all add: fresh_world_miss fresh_world_check)
  from getRepositoryPulls_state [OF miss fetched] obtain items where
    i: "returned (getRepositoryPulls ?up ''acme'' ''app'' fresh_world) = Some (Inr (Items items))"
      "length items = 2"
      "\<forall>i<length ?pulls.
          item_type (items ! i) = PR
          \<and> item_state (items ! i) =
              (case pr_merged_at (?pulls ! i) of
                 None \<Rightarrow> Some (pr_state (?pulls ! i))
               | Some m \<Rightarrow> if m = [] then Some (pr_state (?pulls ! i)) else Some ''merged'')
          \<and> item_isDraft (items ! i) = Some (pr_draft (?pulls ! i))"
    by auto
  from i(3) have "item_state (items ! 0) = Some ''merged''" "item_state (items ! 1) = Some ''open''"
     "item_isDraft (items ! 0) = Some True" "item_isDraft (items ! 1) = Some True"
    by (simp_all add: a_pull_def)
  with i(2) have "map item_state items = [Some ''merged'', Some ''open'']
     \<and> map item_isDraft items = [Some True, Some True]"
    by (cases items; cases "tl items") auto
  with i(1) show ?thesis by auto
qed

text \<open>
  C4 as stated fails on a record whose \<open>merged_at\<close> is the empty string: it is not
  \<open>null\<close>, and the item keeps the raw state \<open>closed\<close>.
\<close>

theorem empty_merged_at_counterexample:
  "pr_merged_at (a_pull ''closed'' (Some '''')) \<noteq> None
   \<and> returned (getRepositoryPulls
        (steady_upstream (plain_response (Some [a_pull ''closed'' (Some '''')])))
        ''acme'' ''app'' fresh_world)
     = Some (Inr (Items
        [\<lparr>item_id = ''pr-acme-app-9001'', item_type = PR, item_repository = ''app'',
          item_repositoryFullName = ''acme/app'', item_title = ''Fix the parser'',
          item_author = ''octocat'', item_authorAvatarUrl = Some ''https://avatars.example/u/1'',
          item_labels = [\<lparr>name = ''bug'', color = ''d73a4a''\<rparr>], item_assignees = [],
          item_createdAt = ''2024-01-02T03:04:05Z'', item_updatedAt = ''2024-02-03T04:05:06Z'',
          item_url = ''https://github.com/acme/app/pull/17'', item_state = Some ''closed'',
          item_number = Some 17, item_isDraft = Some True\<rparr>]))"
  by (simp add: getRepositoryPulls_steady)
     (simp add: normalize_pull_def a_pull_def a_user_def to_label_def truthy_string_def show_int_9001)

subsection \<open>Issues\<close>

text \<open>
  C5, amended. On a cache miss \<open>getRepositoryIssues\<close> returns the normalized items of
  exactly those fetched records whose \<open>pull_request\<close> field is absent or falsy, in
  order; the records whose \<open>pull_request\<close> field is truthy are left out. Every item
  returned has type \<open>issue\<close>.
\<close>

theorem getRepositoryIssues_filter:
  assumes "fst (cache_get (now w) (''issues:'' @ owner @ ''/'' @ repo) (cache w)) = None"
    and "fetchAllPages up (''/repos/'' @ owner @ ''/'' @ repo @ ''/issues?state=all'')
           (w\<lparr>cache := snd (cache_get (now w) (''issues:'' @ owner @ ''/'' @ repo) (cache w))\<rparr>)
         = Some (Inr issues, w2)"
  shows "\<exists>items. returned (getRepositoryIssues up owner repo w) = Some (Inr (Items items))
     \<and> items = map (normalize_issue owner repo)
                 (filter (\<lambda>issue. case issue_pull_request issue of
                                     None \<Rightarrow> True | Some v \<Rightarrow> \<not> truthy v) issues)
     \<and> (\<forall>item\<in>set items. item_type item = Issue)"
proof -
  have "(\<lambda>issue. \<not> pull_request_truthy issue)
      = (\<lambda>issue. case issue_pull_request issue of None \<Rightarrow> True | Some v \<Rightarrow> \<not> truthy v)"
    by (auto simp: pull_request_truthy_def fun_eq_iff split: option.splits)
  then show ?thesis
    by (simp add: getRepositoryIssues_miss [OF assms] returned_def) (simp add: normalize_issue_def)
qed

theorem getRepositoryIssues_filter_witness:
  "returned (getRepositoryIssues
      (steady_upstream (plain_response (Some
         [an_issue 101 None, an_issue 102 (Some (JObject [(''url'', JString ''https://api.github.com/repos/acme/app/pulls/6'')])),
          an_issue 103 None])))
      ''acme'' ''app'' fresh_world)
   = Some (Inr (Items [normalize_issue ''acme'' ''app'' (an_issue 101 None),
                       normalize_issue ''acme'' ''app'' (an_issue 103 None)]))
   \<and> item_type (normalize_issue ''acme'' ''app'' (an_issue 101 None)) = Issue"
proof -
  let ?issues = "[an_issue 101 None, an_issue 102 (Some (JObject [(''url'', JString ''https://api.github.com/repos/acme/app/pulls/6'')])),
          an_issue 103 None]"
  let ?up = "steady_upstream (plain_response (Some ?issues))"
  have miss: "fst (cache_get (now fresh_world) (''issues:'' @ ''acme'' @ ''/'' @ ''app'') (cache fresh_world)) = None"
    by (simp add: fresh_world_miss)
  have fetched: "fetchAllPages ?up (''/repos/'' @ ''acme'' @ ''/'' @ ''app'' @ ''/issues?state=all'')
      (fresh_world\<lparr>cache := snd (cache_get (now fresh_world) (''issues:'' @ ''acme'' @ ''/'' @ ''app'')
         (cache fresh_world))\<rparr>)
      = Some (Inr ?issues, fresh_world\<lparr>calls := calls fresh_world
           @ [resolve_url (page_url (''/repos/'' @ ''acme'' @ ''/'' @ ''app'' @ ''/issues?state=all'') 1)],
           now := 50000\<rparr>)"
    by (subst fetchAllPages_steady_plain) (simp_all add: fresh_world_miss fresh_world_check)
  from getRepositoryIssues_filter [OF miss fetched]
  show ?thesis
    by (auto simp: an_issue_def)
qed

text \<open>
  C5 as stated fails on a record that carries the field with the value \<open>null\<close>: the
  record has a \<open>pull_request\<close> field and its item is returned.
\<close>

theorem null_pull_request_counterexample:
  "issue_pull_request (an_issue 104 (Some JNull)) \<noteq> None
   \<and> returned (getRepositoryIssues
        (steady_upstream (plain_response (Some [an_issue 104 (Some JNull)])))
        ''acme'' ''app'' fresh_world)
     = Some (Inr (Items
        [\<lparr>item_id = ''issue-acme-app-104'', item_type = Issue, item_repository = ''app'',
          item_repositoryFullName = ''acme/app'', item_title = ''Crash on start'',
          item_author = ''unknown'', item_authorAvatarUrl = None,
          item_labels = [],
          item_assignees = [\<lparr>login = ''octocat'', avatarUrl = ''https://avatars.example/u/1''\<rparr>],
          item_createdAt = ''2024-01-02T03:04:05Z'', item_updatedAt = ''2024-02-03T04:05:06Z'',
          item_url = ''https://github.com/acme/app/issues/5'', item_state = Some ''open'',
          item_number = Some 5, item_isDraft = None\<rparr>]))"
  by (simp add: getRepositoryIssues_steady)
     (simp add: normalize_issue_def an_issue_def a_user_def to_assignee_def pull_request_truthy_def
        show_int_def show_nat.simps digit_char_def)

subsection \<open>Branches\<close>

lemma start_lookups_length [simp]:
  "length (fst (start_lookups up owner repo branches w)) = length branches"
  by (induction branches arbitrary: w) (auto simp: Let_def split: option.splits)

lemma start_lookups_nth:
  "i < length branches \<Longrightarrow>
   fst (start_lookups up owner repo branches w) ! i =
     (case rate_limit_check w of
        Some e \<Rightarrow> Inl e
      | None \<Rightarrow> Inr (up (length (calls w) + i)
                  (resolve_url (commit_endpoint owner repo (head_sha (branch_commit (branches ! i)))))))"
proof (induction branches arbitrary: w i)
  case Nil
  then show ?case by simp
next
  case (Cons b rest)
  show ?case
  proof (cases i)
    case 0
    then show ?thesis by (simp add: Let_def split: option.splits)
  next
    case (Suc j)
    with Cons.prems have "j < length rest" by simp
    from Cons.IH [OF this] Suc show ?thesis
      by (simp add: Let_def split: option.splits)
  qed
qed

lemma lookup_result_nth:
  assumes "i < length branches"
  shows "lookup_result (fst (start_lookups up owner repo branches w) ! i)
           = branch_lookup up owner repo branches w i"
  using assms
  by (simp add: start_lookups_nth branch_lookup_def getCommitDetails_def request_def
      lookup_result_def Let_def min_def split: option.splits fetched.splits)

lemma getRepositoryBranches_miss:
  assumes "fst (cache_get (now w) (''branches:'' @ owner @ ''/'' @ repo) (cache w)) = None"
    and "fetchAllPages up (''/repos/'' @ owner @ ''/'' @ repo @ ''/branches'')
           (w\<lparr>cache := snd (cache_get (now w) (''branches:'' @ owner @ ''/'' @ repo) (cache w))\<rparr>)
         = Some (Inr branches, w2)"
  shows "returned (getRepositoryBranches up up_commit arrival owner repo w) =
     Some (Inr (Items (map (normalize_branch owner repo)
       (zip branches (map (\<lambda>p. caught (lookup_result p))
          (fst (start_lookups up_commit owner repo branches w2)))))))"
  using assms by (simp add: getRepositoryBranches_def Let_def returned_def)

lemma branch_items_nth:
  assumes "i < length branches"
  shows "map (normalize_branch owner repo)
       (zip branches (map (\<lambda>p. caught (lookup_result p))
          (fst (start_lookups up_commit owner repo branches w2)))) ! i
     = normalize_branch owner repo
         (branches ! i, caught (branch_lookup up_commit owner repo branches w2 i))"
  using assms by (simp add: lookup_result_nth)

lemma branch_lookup_open:
  assumes "rate_limit_check w = None" and "i < length branches"
  shows "branch_lookup up owner repo branches w i =
     lookup_result (Inr (up (length (calls w) + i)
        (resolve_url (commit_endpoint owner repo (head_sha (branch_commit (branches ! i)))))))"
  using assms lookup_result_nth [of i branches up owner repo w, symmetric]
  by (simp add: start_lookups_nth)

lemma commit_url:
  "resolve_url (commit_endpoint ''acme'' ''app'' sha) = ''https://api.github.com/repos/acme/app/commits/'' @ sha"
  by (simp add: resolve_url_def commit_endpoint_def startsWith_def baseUrl_def)

lemma commits_upstream_lookup:
  "lookup_result (Inr (commits_upstream k url))
     = (if url = ''https://api.github.com/repos/acme/app/commits/aaa1''
        then Inr (a_commit ''aaa1'' ''2024-01-01T00:00:00Z'' ''2024-01-05T00:00:00Z'')
        else if url = ''https://api.github.com/repos/acme/app/commits/ccc3''
        then Inr (a_commit ''ccc3'' ''2024-03-01T00:00:00Z'' ''2024-03-07T00:00:00Z'')
        else Inl (UpstreamError ''GitHub API error: API rate limit exceeded''))"
  by (simp add: lookup_result_def commits_upstream_def settle_def)
     (simp add: plain_response_def error_response_def)

lemma listed_steady:
  "length branches < 100 \<Longrightarrow>
   fetchAllPages (steady_upstream (plain_response (Some branches))) endpoint
      (fresh_world\<lparr>cache := snd (cache_get (now fresh_world) key (cache fresh_world))\<rparr>)
    = Some (Inr branches,
        fresh_world\<lparr>calls := calls fresh_world @ [resolve_url (page_url endpoint 1)], now := 50000\<rparr>)"
  by (subst fetchAllPages_steady_plain) (simp_all add: fresh_world_miss fresh_world_check)

lemma listed_world_check:
  "rate_limit_check (fresh_world\<lparr>calls := c, now := t\<rparr>) = None"
  by (simp add: rate_limit_check_def fresh_world_def initial_rateLimitInfo_def)

lemma map_of_three:
  "length xs = 3 \<Longrightarrow> map f xs = [f (xs ! 0), f (xs ! 1), f (xs ! 2)]"
  by (cases xs; cases "tl xs"; cases "tl (tl xs)") auto

lemma map_of_one: "length xs = Suc 0 \<Longrightarrow> map f xs = [f (xs ! 0)]"
  by (cases xs) auto

lemma getRepositoryBranches_one_branch:
  "returned (getRepositoryBranches (steady_upstream (plain_response (Some [b]))) up_commit arrival
      ''acme'' ''app'' fresh_world)
   = Some (Inr (Items [normalize_branch ''acme'' ''app''
        (b, caught (lookup_result (Inr (up_commit 1
              (resolve_url (commit_endpoint ''acme'' ''app'' (head_sha (branch_commit b))))))))]))"
proof -
  have miss: "fst (cache_get (now fresh_world) (''branches:'' @ ''acme'' @ ''/'' @ ''app'') (cache fresh_world)) = None"
    by (simp add: fresh_world_miss)
  have listed: "fetchAllPages (steady_upstream (plain_response (Some [b])))
      (''/repos/'' @ ''acme'' @ ''/'' @ ''app'' @ ''/branches'')
      (fresh_world\<lparr>cache := snd (cache_get (now fresh_world) (''branches:'' @ ''acme'' @ ''/'' @ ''app'')
         (cache fresh_world))\<rparr>)
      = Some (Inr [b], fresh_world\<lparr>calls := calls fresh_world
                @ [resolve_url (page_url (''/repos/'' @ ''acme'' @ ''/'' @ ''app'' @ ''/branches'') 1)],
              now := 50000\<rparr>)"
    by (rule listed_steady) simp
  show ?thesis
    by (subst getRepositoryBranches_miss [OF miss listed])
       (simp add: listed_world_check Let_def, simp add: fresh_world_def)
qed

text \<open>
  C3. On a cache miss with the branch listing fetched, \<open>getRepositoryBranches\<close> returns
  successfully with one item per branch, in listing order, whatever the lookups do and
  in whatever order their replies arrive. The item of a branch whose lookup failed has
  \<open>createdAt = ''\<close> and \<open>updatedAt = ''\<close>; the item of a branch whose lookup returned a
  commit has that commit's date (the committer's) in both fields.
\<close>

theorem getRepositoryBranches_failed_lookups:
  assumes "fst (cache_get (now w) (''branches:'' @ owner @ ''/'' @ repo) (cache w)) = None"
    and "fetchAllPages up (''/repos/'' @ owner @ ''/'' @ repo @ ''/branches'')
           (w\<lparr>cache := snd (cache_get (now w) (''branches:'' @ owner @ ''/'' @ repo) (cache w))\<rparr>)
         = Some (Inr branches, w2)"
  shows "\<exists>items. returned (getRepositoryBranches up up_commit arrival owner repo w)
                   = Some (Inr (Items items))
     \<and> length items = length branches
     \<and> (\<forall>i<length branches.
          item_title (items ! i) = branch_name (branches ! i)
          \<and> (case branch_lookup up_commit owner repo branches w2 i of
                Inl e \<Rightarrow> item_createdAt (items ! i) = '''' \<and> item_updatedAt (items ! i) = ''''
              | Inr c \<Rightarrow>
                  item_createdAt (items ! i) = sig_date (git_committer (commit_commit c))
                  \<and> item_updatedAt (items ! i) = sig_date (git_committer (commit_commit c))))"
proof -
  let ?items = "map (normalize_branch owner repo)
       (zip branches (map (\<lambda>p. caught (lookup_result p))
          (fst (start_lookups up_commit owner repo branches w2))))"
  have "returned (getRepositoryBranches up up_commit arrival owner repo w) = Some (Inr (Items ?items))"
    by (rule getRepositoryBranches_miss [OF assms])
  moreover have "length ?items = length branches"
    by simp
  moreover have "\<forall>i<length branches.
          item_title (?items ! i) = branch_name (branches ! i)
          \<and> (case branch_lookup up_commit owner repo branches w2 i of
                Inl e \<Rightarrow> item_createdAt (?items ! i) = '''' \<and> item_updatedAt (?items ! i) = ''''
              | Inr c \<Rightarrow>
                  item_createdAt (?items ! i) = sig_date (git_committer (commit_commit c))
                  \<and> item_updatedAt (?items ! i) = sig_date (git_committer (commit_commit c)))"
    by (intro allI impI, simp only: branch_items_nth)
       (simp add: normalize_branch_def caught_def lastCommitDate_def truthy_string_def Let_def
          split: sum.splits)
  ultimately show ?thesis by blast
qed

theorem getRepositoryBranches_failed_lookups_witness:
  "\<exists>items. returned (getRepositoryBranches
        (steady_upstream (plain_response (Some
           [a_branch ''main'' ''aaa1'', a_branch ''dev'' ''bbb2'', a_branch ''fix'' ''ccc3''])))
        commits_upstream [2, 0, 1] ''acme'' ''app'' fresh_world) = Some (Inr (Items items))
     \<and> map item_title items = [''main'', ''dev'', ''fix'']
     \<and> map item_createdAt items = [''2024-01-05T00:00:00Z'', '''', ''2024-03-07T00:00:00Z'']
     \<and> map item_updatedAt items = [''2024-01-05T00:00:00Z'', '''', ''2024-03-07T00:00:00Z'']"
proof -
  let ?bs = "[a_branch ''main'' ''aaa1'', a_branch ''dev'' ''bbb2'', a_branch ''fix'' ''ccc3'']"
  let ?up = "steady_upstream (plain_response (Some ?bs))"
  let ?w2 = "fresh_world\<lparr>calls := calls fresh_world
                @ [resolve_url (page_url (''/repos/'' @ ''acme'' @ ''/'' @ ''app'' @ ''/branches'') 1)],
              now := 50000\<rparr>"
  have miss: "fst (cache_get (now fresh_world) (''branches:'' @ ''acme'' @ ''/'' @ ''app'') (cache fresh_world)) = None"
    by (simp add: fresh_world_miss)
  have listed: "fetchAllPages ?up (''/repos/'' @ ''acme'' @ ''/'' @ ''app'' @ ''/branches'')
      (fresh_world\<lparr>cache := snd (cache_get (now fresh_world) (''branches:'' @ ''acme'' @ ''/'' @ ''app'')
         (cache fresh_world))\<rparr>) = Some (Inr ?bs, ?w2)"
    by (rule listed_steady) simp
  have l: "branch_lookup commits_upstream ''acme'' ''app'' ?bs ?w2 0
             = Inr (a_commit ''aaa1'' ''2024-01-01T00:00:00Z'' ''2024-01-05T00:00:00Z'')"
    "branch_lookup commits_upstream ''acme'' ''app'' ?bs ?w2 1
             = Inl (UpstreamError ''GitHub API error: API rate limit exceeded'')"
    "branch_lookup commits_upstream ''acme'' ''app'' ?bs ?w2 2
             = Inr (a_commit ''ccc3'' ''2024-03-01T00:00:00Z'' ''2024-03-07T00:00:00Z'')"
    by (simp_all add: branch_lookup_open listed_world_check commit_url commits_upstream_lookup
        a_branch_def)
  from getRepositoryBranches_failed_lookups [OF miss listed, of commits_upstream "[2, 0, 1]"]
  obtain items where
    i: "returned (getRepositoryBranches ?up commits_upstream [2, 0, 1] ''acme'' ''app'' fresh_world)
          = Some (Inr (Items items))"
      "length items = 3"
      "\<forall>i<length ?bs.
          item_title (items ! i) = branch_name (?bs ! i)
          \<and> (case branch_lookup commits_upstream ''acme'' ''app'' ?bs ?w2 i of
                Inl e \<Rightarrow> item_createdAt (items ! i) = '''' \<and> item_updatedAt (items ! i) = ''''
              | Inr c \<Rightarrow>
                  item_createdAt (items ! i) = sig_date (git_committer (commit_commit c))
                  \<and> item_updatedAt (items ! i) = sig_date (git_committer (commit_commit c)))"
    by auto
  have p: "i < 3 \<Longrightarrow>
          item_title (items ! i) = branch_name (?bs ! i)
          \<and> (case branch_lookup commits_upstream ''acme'' ''app'' ?bs ?w2 i of
                Inl e \<Rightarrow> item_createdAt (items ! i) = '''' \<and> item_updatedAt (items ! i) = ''''
              | Inr c \<Rightarrow>
                  item_createdAt (items ! i) = sig_date (git_committer (commit_commit c))
                  \<and> item_updatedAt (items ! i) = sig_date (git_committer (commit_commit c)))" for i
    using i(3) by simp
  from p [of 0, unfolded l] have 0: "item_title (items ! 0) = ''main''"
      "item_createdAt (items ! 0) = ''2024-01-05T00:00:00Z''"
      "item_updatedAt (items ! 0) = ''2024-01-05T00:00:00Z''"
    by (simp_all add: a_branch_def a_commit_def)
  from p [of 1, unfolded l] have 1: "item_title (items ! 1) = ''dev''"
      "item_createdAt (items ! 1) = ''''" "item_updatedAt (items ! 1) = ''''"
    by (simp_all add: a_branch_def)
  from p [of 2, unfolded l] have 2: "item_title (items ! 2) = ''fix''"
      "item_createdAt (items ! 2) = ''2024-03-07T00:00:00Z''"
      "item_updatedAt (items ! 2) = ''2024-03-07T00:00:00Z''"
    by (simp_all add: a_branch_def a_commit_def)
  from 0 1 2 have "map item_title items = [''main'', ''dev'', ''fix'']
     \<and> map item_createdAt items = [''2024-01-05T00:00:00Z'', '''', ''2024-03-07T00:00:00Z'']
     \<and> map item_updatedAt items = [''2024-01-05T00:00:00Z'', '''', ''2024-03-07T00:00:00Z'']"
    by (simp only: map_of_three [OF i(2)])
  with i(1) show ?thesis by (intro exI [of _ items]) simp
qed

text \<open>
  C6, amended. The date taken from the head-commit lookup is the commit's committer
  date (\<open>commit.committer.date\<close>). It is set as both \<open>createdAt\<close> and \<open>updatedAt\<close> of the
  branch item, and both are the empty string when the lookup failed. A branch item has
  an empty author, no avatar, empty label and assignee lists, and no \<open>state\<close>, \<open>number\<close>
  or \<open>isDraft\<close>.
\<close>

theorem getRepositoryBranches_fields:
  assumes "fst (cache_get (now w) (''branches:'' @ owner @ ''/'' @ repo) (cache w)) = None"
    and "fetchAllPages up (''/repos/'' @ owner @ ''/'' @ repo @ ''/branches'')
           (w\<lparr>cache := snd (cache_get (now w) (''branches:'' @ owner @ ''/'' @ repo) (cache w))\<rparr>)
         = Some (Inr branches, w2)"
  shows "\<exists>items. returned (getRepositoryBranches up up_commit arrival owner repo w)
                   = Some (Inr (Items items))
     \<and> length items = length branches
     \<and> (\<forall>i<length branches.
          item_type (items ! i) = Branch
          \<and> item_createdAt (items ! i) =
              (case branch_lookup up_commit owner repo branches w2 i of
                 Inl e \<Rightarrow> ''''
               | Inr c \<Rightarrow> sig_date (git_committer (commit_commit c)))
          \<and> item_updatedAt (items ! i) = item_createdAt (items ! i)
          \<and> item_author (items ! i) = '''' \<and> item_authorAvatarUrl (items ! i) = None
          \<and> item_labels (items ! i) = [] \<and> item_assignees (items ! i) = []
          \<and> item_state (items ! i) = None \<and> item_number (items ! i) = None
          \<and> item_isDraft (items ! i) = None)"
proof -
  let ?items = "map (normalize_branch owner repo)
       (zip branches (map (\<lambda>p. caught (lookup_result p))
          (fst (start_lookups up_commit owner repo branches w2))))"
  have "returned (getRepositoryBranches up up_commit arrival owner repo w) = Some (Inr (Items ?items))"
    by (rule getRepositoryBranches_miss [OF assms])
  moreover have "length ?items = length branches"
    by simp
  moreover have "\<forall>i<length branches.
          item_type (?items ! i) = Branch
          \<and> item_createdAt (?items ! i) =
              (case branch_lookup up_commit owner repo branches w2 i of
                 Inl e \<Rightarrow> ''''
               | Inr c \<Rightarrow> sig_date (git_committer (commit_commit c)))
          \<and> item_updatedAt (?items ! i) = item_createdAt (?items ! i)
          \<and> item_author (?items ! i) = '''' \<and> item_authorAvatarUrl (?items ! i) = None
          \<and> item_labels (?items ! i) = [] \<and> item_assignees (?items ! i) = []
          \<and> item_state (?items ! i) = None \<and> item_number (?items ! i) = None
          \<and> item_isDraft (?items ! i) = None"
    by (intro allI impI, simp only: branch_items_nth)
       (simp add: normalize_branch_def caught_def lastCommitDate_def truthy_string_def Let_def
          split: sum.splits)
  ultimately show ?thesis by blast
qed

theorem getRepositoryBranches_fields_witness:
  "\<exists>items. returned (getRepositoryBranches
        (steady_upstream (plain_response (Some [a_branch ''main'' ''aaa1''])))
        commits_upstream [0] ''acme'' ''app'' fresh_world) = Some (Inr (Items items))
     \<and> map item_type items = [Branch]
     \<and> map item_createdAt items = [''2024-01-05T00:00:00Z'']
     \<and> map item_updatedAt items = [''2024-01-05T00:00:00Z'']
     \<and> map item_author items = ['''']
     \<and> map item_labels items = [[]] \<and> map item_assignees items = [[]]
     \<and> map item_state items = [None] \<and> map item_number items = [None]
     \<and> map item_isDraft items = [None]"
proof -
  let ?bs = "[a_branch ''main'' ''aaa1'']"
  let ?up = "steady_upstream (plain_response (Some ?bs))"
  let ?w2 = "fresh_world\<lparr>calls := calls fresh_world
                @ [resolve_url (page_url (''/repos/'' @ ''acme'' @ ''/'' @ ''app'' @ ''/branches'') 1)],
              now := 50000\<rparr>"
  have miss: "fst (cache_get (now fresh_world) (''branches:'' @ ''acme'' @ ''/'' @ ''app'') (cache fresh_world)) = None"
    by (simp add: fresh_world_miss)
  have listed: "fetchAllPages ?up (''/repos/'' @ ''acme'' @ ''/'' @ ''app'' @ ''/branches'')
      (fresh_world\<lparr>cache := snd (cache_get (now fresh_world) (''branches:'' @ ''acme'' @ ''/'' @ ''app'')
         (cache fresh_world))\<rparr>) = Some (Inr ?bs, ?w2)"
    by (rule listed_steady) simp
  have l: "branch_lookup commits_upstream ''acme'' ''app'' ?bs ?w2 0
             = Inr (a_commit ''aaa1'' ''2024-01-01T00:00:00Z'' ''2024-01-05T00:00:00Z'')"
    by (simp add: branch_lookup_open listed_world_check commit_url commits_upstream_lookup
        a_branch_def)
  from getRepositoryBranches_fields [OF miss listed, of commits_upstream "[0]"]
  obtain items where
    i: "returned (getRepositoryBranches ?up commits_upstream [0] ''acme'' ''app'' fresh_world)
          = Some (Inr (Items items))"
      "length items = Suc 0"
      "\<forall>i<length ?bs.
          item_type (items ! i) = Branch
          \<and> item_createdAt (items ! i) =
              (case branch_lookup commits_upstream ''acme'' ''app'' ?bs ?w2 i of
                 Inl e \<Rightarrow> ''''
               | Inr c \<Rightarrow> sig_date (git_committer (commit_commit c)))
          \<and> item_updatedAt (items ! i) = item_createdAt (items ! i)
          \<and> item_author (items ! i) = '''' \<and> item_authorAvatarUrl (items ! i) = None
          \<and> item_labels (items ! i) = [] \<and> item_assignees (items ! i) = []
          \<and> item_state (items ! i) = None \<and> item_number (items ! i) = None
          \<and> item_isDraft (items ! i) = None"
    by auto
  have p: "item_type (items ! 0) = Branch
          \<and> item_createdAt (items ! 0) =
              (case branch_lookup commits_upstream ''acme'' ''app'' ?bs ?w2 0 of
                 Inl e \<Rightarrow> ''''
               | Inr c \<Rightarrow> sig_date (git_committer (commit_commit c)))
          \<and> item_updatedAt (items ! 0) = item_createdAt (items ! 0)
          \<and> item_author (items ! 0) = '''' \<and> item_authorAvatarUrl (items ! 0) = None
          \<and> item_labels (items ! 0) = [] \<and> item_assignees (items ! 0) = []
          \<and> item_state (items ! 0) = None \<and> item_number (items ! 0) = None
          \<and> item_isDraft (items ! 0) = None"
    using i(3) by simp
  from p [unfolded l] have "map item_type items = [Branch]
     \<and> map item_createdAt items = [''2024-01-05T00:00:00Z'']
     \<and> map item_updatedAt items = [''2024-01-05T00:00:00Z'']
     \<and> map item_author items = ['''']
     \<and> map item_labels items = [[]] \<and> map item_assignees items = [[]]
     \<and> map item_state items = [None] \<and> map item_number items = [None]
     \<and> map item_isDraft items = [None]"
    by (simp add: map_of_one [OF i(2)] a_commit_def)
  with i(1) show ?thesis by (intro exI [of _ items]) simp
qed

text \<open>
  C6 as stated fails on a commit authored on 1 January and committed on 5 January: the
  lookup returns it, and the branch item carries 5 January, not the author date.
\<close>

theorem committer_date_counterexample:
  "sig_date (git_author (commit_commit
       (a_commit ''aaa1'' ''2024-01-01T00:00:00Z'' ''2024-01-05T00:00:00Z''))) = ''2024-01-01T00:00:00Z''
   \<and> fst (getCommitDetails commits_upstream ''acme'' ''app'' ''aaa1'' fresh_world)
       = Inr (a_commit ''aaa1'' ''2024-01-01T00:00:00Z'' ''2024-01-05T00:00:00Z'')
   \<and> returned (getRepositoryBranches
        (steady_upstream (plain_response (Some [a_branch ''main'' ''aaa1''])))
        commits_upstream [0] ''acme'' ''app'' fresh_world)
     = Some (Inr (Items
        [\<lparr>item_id = ''branch-acme-app-main'', item_type = Branch, item_repository = ''app'',
          item_repositoryFullName = ''acme/app'', item_title = ''main'',
          item_author = '''', item_authorAvatarUrl = None,
          item_labels = [], item_assignees = [],
          item_createdAt = ''2024-01-05T00:00:00Z'', item_updatedAt = ''2024-01-05T00:00:00Z'',
          item_url = ''https://github.com/acme/app/tree/main'', item_state = None,
          item_number = None, item_isDraft = None\<rparr>]))"
proof -
  have a: "sig_date (git_author (commit_commit
       (a_commit ''aaa1'' ''2024-01-01T00:00:00Z'' ''2024-01-05T00:00:00Z''))) = ''2024-01-01T00:00:00Z''"
    by (simp add: a_commit_def)
  have b: "fst (getCommitDetails commits_upstream ''acme'' ''app'' ''aaa1'' fresh_world)
       = Inr (a_commit ''aaa1'' ''2024-01-01T00:00:00Z'' ''2024-01-05T00:00:00Z'')"
    using commits_upstream_lookup [of 0 "''https://api.github.com/repos/acme/app/commits/aaa1''"]
    by (simp add: getCommitDetails_def request_def fresh_world_check Let_def commit_url
        lookup_result_def split: fetched.splits)
       (simp add: fresh_world_def)
  have c: "returned (getRepositoryBranches
        (steady_upstream (plain_response (Some [a_branch ''main'' ''aaa1''])))
        commits_upstream [0] ''acme'' ''app'' fresh_world)
     = Some (Inr (Items
        [\<lparr>item_id = ''branch-acme-app-main'', item_type = Branch, item_repository = ''app'',
          item_repositoryFullName = ''acme/app'', item_title = ''main'',
          item_author = '''', item_authorAvatarUrl = None,
          item_labels = [], item_assignees = [],
          item_createdAt = ''2024-01-05T00:00:00Z'', item_updatedAt = ''2024-01-05T00:00:00Z'',
          item_url = ''https://github.com/acme/app/tree/main'', item_state = None,
          item_number = None, item_isDraft = None\<rparr>]))"
    by (simp add: getRepositoryBranches_one_branch)
       (simp add: a_branch_def commit_url commits_upstream_lookup caught_def normalize_branch_def
          lastCommitDate_def a_commit_def truthy_string_def)
  from a b c show ?thesis by (intro conjI)
qed

subsection \<open>Item identifiers\<close>

text \<open>Decimal rendering of integers is injective, and never starts a natural with a minus sign.\<close>

lemma below_ten:
  "(k::nat) < 10 \<Longrightarrow>
   k = 0 \<or> k = 1 \<or> k = 2 \<or> k = 3 \<or> k = 4 \<or> k = 5 \<or> k = 6 \<or> k = 7 \<or> k = 8 \<or> k = 9"
  by presburger

lemma digit_char_code: "d < 10 \<Longrightarrow> of_char (digit_char d) = (48 + d :: nat)"
  by (drule below_ten) (elim disjE; simp add: digit_char_def)

lemma digit_char_inj:
  assumes "d < 10" and "e < 10" and "digit_char d = digit_char e"
  shows "d = e"
proof -
  from assms(3) have "(of_char (digit_char d) :: nat) = of_char (digit_char e)" by simp
  with assms(1,2) show ?thesis by (simp add: digit_char_code)
qed

lemma digit_char_is_digit: "digit_char d \<in> set ''0123456789''"
proof -
  have "d mod 10 < length ''0123456789''" by simp
  then show ?thesis
    unfolding digit_char_def by (rule nth_mem)
qed

lemma show_nat_not_Nil: "show_nat n \<noteq> []"
  by (subst show_nat.simps) simp

lemma show_nat_digits: "set (show_nat n) \<subseteq> set ''0123456789''"
proof (induction n rule: show_nat.induct)
  case (1 n)
  show ?case
  proof (cases "n < 10")
    case True
    then show ?thesis
      using digit_char_is_digit [of n] by (subst show_nat.simps) simp
  next
    case False
    with 1 have "set (show_nat (n div 10)) \<subseteq> set ''0123456789''" by simp
    with False show ?thesis
      using digit_char_is_digit [of "n mod 10"] by (subst show_nat.simps) simp
  qed
qed

lemma show_nat_inj: "show_nat n = show_nat m \<Longrightarrow> n = m"
proof (induction n arbitrary: m rule: show_nat.induct)
  case (1 n)
  show ?case
  proof (cases "n < 10")
    case small_n: True
    show ?thesis
    proof (cases "m < 10")
      case True
      with small_n "1.prems" have "digit_char n = digit_char m"
        by (simp add: show_nat.simps [of n] show_nat.simps [of m])
      with small_n True show ?thesis by (rule digit_char_inj)
    next
      case False
      with small_n "1.prems" have "show_nat (m div 10) = []"
        by (simp add: show_nat.simps [of n] show_nat.simps [of m] Cons_eq_append_conv)
      then show ?thesis by (simp add: show_nat_not_Nil)
    qed
  next
    case big_n: False
    show ?thesis
    proof (cases "m < 10")
      case True
      with big_n "1.prems" have "show_nat (n div 10) = []"
        by (simp add: show_nat.simps [of n] show_nat.simps [of m] append_eq_Cons_conv)
      then show ?thesis by (simp add: show_nat_not_Nil)
    next
      case False
      with big_n "1.prems" have eq: "show_nat (n div 10) = show_nat (m div 10)"
          "digit_char (n mod 10) = digit_char (m mod 10)"
        by (simp_all add: show_nat.simps [of n] show_nat.simps [of m])
      from "1.IH" [OF big_n eq(1)] have "n div 10 = m div 10" .
      moreover from eq(2) have "n mod 10 = m mod 10"
        by (intro digit_char_inj) simp_all
      ultimately show ?thesis
        by (metis div_mult_mod_eq)
    qed
  qed
qed

lemma show_nat_no_minus: "show_nat n \<noteq> CHR ''-'' # s"
proof
  assume "show_nat n = CHR ''-'' # s"
  then have "CHR ''-'' \<in> set (show_nat n)" by simp
  with show_nat_digits [of n] show False by auto
qed

lemma show_int_inj: "show_int a = show_int b \<Longrightarrow> a = b"
proof -
  assume eq: "show_int a = show_int b"
  show ?thesis
  proof (cases "a < 0"; cases "b < 0")
    assume "a < 0" "b < 0"
    with eq have "nat (- a) = nat (- b)"
      using show_nat_inj [of "nat (- a)" "nat (- b)"] by (simp add: show_int_def)
    with \<open>a < 0\<close> \<open>b < 0\<close> show ?thesis by simp
  next
    assume "a < 0" "\<not> b < 0"
    with eq show ?thesis
      using show_nat_no_minus [of "nat b" "show_nat (nat (- a))"] by (simp add: show_int_def)
  next
    assume "\<not> a < 0" "b < 0"
    with eq show ?thesis
      using show_nat_no_minus [of "nat a" "show_nat (nat (- b))"] by (simp add: show_int_def)
  next
    assume "\<not> a < 0" "\<not> b < 0"
    with eq have "nat a = nat b"
      using show_nat_inj [of "nat a" "nat b"] by (simp add: show_int_def)
    with \<open>\<not> a < 0\<close> \<open>\<not> b < 0\<close> show ?thesis by simp
  qed
qed

lemma distinct_ids:
  assumes "distinct (map key xs)"
    and "\<And>x y. mk x = mk y \<Longrightarrow> key x = key y"
  shows "distinct (map mk xs)"
proof -
  from assms(1) have d: "distinct xs" and k: "inj_on key (set xs)"
    by (simp_all add: distinct_map)
  have "inj_on mk (set xs)"
  proof (rule inj_onI)
    fix x y
    assume x: "x \<in> set xs" and y: "y \<in> set xs" and m: "mk x = mk y"
    from m have "key x = key y" by (rule assms(2))
    with k x y show "x = y" by (auto dest: inj_onD)
  qed
  with d show ?thesis by (simp add: distinct_map)
qed

lemma issue_ids:
  assumes "fst (cache_get (now w) (''issues:'' @ owner @ ''/'' @ repo) (cache w)) = None"
    and "fetchAllPages up (''/repos/'' @ owner @ ''/'' @ repo @ ''/issues?state=all'')
           (w\<lparr>cache := snd (cache_get (now w) (''issues:'' @ owner @ ''/'' @ repo) (cache w))\<rparr>)
         = Some (Inr issues, w2)"
  shows "\<exists>items. returned (getRepositoryIssues up owner repo w) = Some (Inr (Items items))
     \<and> map item_id items =
         map (\<lambda>r. ''issue-'' @ owner @ ''-'' @ repo @ ''-'' @ show_int (issue_id r))
           (filter (\<lambda>r. \<not> pull_request_truthy r) issues)
     \<and> (distinct (map issue_id issues) \<longrightarrow> distinct (map item_id items))"
proof -
  let ?kept = "filter (\<lambda>r. \<not> pull_request_truthy r) issues"
  let ?items = "map (normalize_issue owner repo) ?kept"
  have r: "returned (getRepositoryIssues up owner repo w) = Some (Inr (Items ?items))"
    by (simp add: getRepositoryIssues_miss [OF assms] returned_def)
  have m: "map item_id ?items =
      map (\<lambda>r. ''issue-'' @ owner @ ''-'' @ repo @ ''-'' @ show_int (issue_id r)) ?kept"
    by (simp add: normalize_issue_def)
  have d: "distinct (map item_id ?items)" if "distinct (map issue_id issues)"
  proof -
    from that have "distinct (map issue_id ?kept)"
      by (rule distinct_map_filter)
    then have "distinct (map (\<lambda>r. ''issue-'' @ owner @ ''-'' @ repo @ ''-'' @ show_int (issue_id r)) ?kept)"
      by (rule distinct_ids) (simp, erule show_int_inj)
    with m show ?thesis by (simp only:)
  qed
  from r m d show ?thesis by blast
qed

lemma pull_ids:
  assumes "fst (cache_get (now w) (''pulls:'' @ owner @ ''/'' @ repo) (cache w)) = None"
    and "fetchAllPages up (''/repos/'' @ owner @ ''/'' @ repo @ ''/pulls?state=all'')
           (w\<lparr>cache := snd (cache_get (now w) (''pulls:'' @ owner @ ''/'' @ repo) (cache w))\<rparr>)
         = Some (Inr pulls, w2)"
  shows "\<exists>items. returned (getRepositoryPulls up owner repo w) = Some (Inr (Items items))
     \<and> map item_id items =
         map (\<lambda>r. ''pr-'' @ owner @ ''-'' @ repo @ ''-'' @ show_int (pr_id r)) pulls
     \<and> (distinct (map pr_id pulls) \<longrightarrow> distinct (map item_id items))"
proof -
  let ?items = "map (normalize_pull owner repo) pulls"
  have r: "returned (getRepositoryPulls up owner repo w) = Some (Inr (Items ?items))"
    by (simp add: getRepositoryPulls_miss [OF assms] returned_def)
  have m: "map item_id ?items =
      map (\<lambda>r. ''pr-'' @ owner @ ''-'' @ repo @ ''-'' @ show_int (pr_id r)) pulls"
    by (simp add: normalize_pull_def)
  have d: "distinct (map item_id ?items)" if "distinct (map pr_id pulls)"
  proof -
    from that
    have "distinct (map (\<lambda>r. ''pr-'' @ owner @ ''-'' @ repo @ ''-'' @ show_int (pr_id r)) pulls)"
      by (rule distinct_ids) (simp, erule show_int_inj)
    with m show ?thesis by (simp only:)
  qed
  from r m d show ?thesis by blast
qed

lemma branch_ids:
  assumes "fst (cache_get (now w) (''branches:'' @ owner @ ''/'' @ repo) (cache w)) = None"
    and "fetchAllPages up (''/repos/'' @ owner @ ''/'' @ repo @ ''/branches'')
           (w\<lparr>cache := snd (cache_get (now w) (''branches:'' @ owner @ ''/'' @ repo) (cache w))\<rparr>)
         = Some (Inr branches, w2)"
  shows "\<exists>items. returned (getRepositoryBranches up up_commit arrival owner repo w)
                   = Some (Inr (Items items))
     \<and> map item_id items =
         map (\<lambda>r. ''branch-'' @ owner @ ''-'' @ repo @ ''-'' @ branch_name r) branches
     \<and> (distinct (map branch_name branches) \<longrightarrow> distinct (map item_id items))"
proof -
  let ?items = "map (normalize_branch owner repo)
       (zip branches (map (\<lambda>p. caught (lookup_result p))
          (fst (start_lookups up_commit owner repo branches w2))))"
  have r: "returned (getRepositoryBranches up up_commit arrival owner repo w) = Some (Inr (Items ?items))"
    by (rule getRepositoryBranches_miss [OF assms])
  have m: "map item_id ?items =
      map (\<lambda>r. ''branch-'' @ owner @ ''-'' @ repo @ ''-'' @ branch_name r) branches"
    by (rule nth_equalityI) (simp_all add: normalize_branch_def)
  have d: "distinct (map item_id ?items)" if "distinct (map branch_name branches)"
  proof -
    from that
    have "distinct (map (\<lambda>r. ''branch-'' @ owner @ ''-'' @ repo @ ''-'' @ branch_name r) branches)"
      by (rule distinct_ids) simp
    with m show ?thesis by (simp only:)
  qed
  from r m d show ?thesis by blast
qed

text \<open>
  C9. On a cache miss each of \<open>getRepositoryIssues\<close>, \<open>getRepositoryPulls\<close> and
  \<open>getRepositoryBranches\<close> returns items whose ids are, in order,
  \<open>issue-{owner}-{repo}-{id}\<close>, \<open>pr-{owner}-{repo}-{id}\<close> and
  \<open>branch-{owner}-{repo}-{name}\<close> of the records they come from: the id depends on the
  kind, the owner, the repository and the upstream id or name only, so the same entity
  gets the same id in every fetch. When the upstream ids (the branch names) of the
  fetched records are distinct, the ids of the returned items are distinct.
\<close>

theorem item_ids:
  "(fst (cache_get (now wi) (''issues:'' @ owner @ ''/'' @ repo) (cache wi)) = None
     \<and> fetchAllPages upi (''/repos/'' @ owner @ ''/'' @ repo @ ''/issues?state=all'')
           (wi\<lparr>cache := snd (cache_get (now wi) (''issues:'' @ owner @ ''/'' @ repo) (cache wi))\<rparr>)
         = Some (Inr issues, wi2)
     \<longrightarrow> (\<exists>items. returned (getRepositoryIssues upi owner repo wi) = Some (Inr (Items items))
           \<and> map item_id items =
               map (\<lambda>r. ''issue-'' @ owner @ ''-'' @ repo @ ''-'' @ show_int (issue_id r))
                 (filter (\<lambda>r. \<not> pull_request_truthy r) issues)
           \<and> (distinct (map issue_id issues) \<longrightarrow> distinct (map item_id items))))
   \<and> (fst (cache_get (now wp) (''pulls:'' @ owner @ ''/'' @ repo) (cache wp)) = None
     \<and> fetchAllPages upp (''/repos/'' @ owner @ ''/'' @ repo @ ''/pulls?state=all'')
           (wp\<lparr>cache := snd (cache_get (now wp) (''pulls:'' @ owner @ ''/'' @ repo) (cache wp))\<rparr>)
         = Some (Inr pulls, wp2)
     \<longrightarrow> (\<exists>items. returned (getRepositoryPulls upp owner repo wp) = Some (Inr (Items items))
           \<and> map item_id items =
               map (\<lambda>r. ''pr-'' @ owner @ ''-'' @ repo @ ''-'' @ show_int (pr_id r)) pulls
           \<and> (distinct (map pr_id pulls) \<longrightarrow> distinct (map item_id items))))
   \<and> (fst (cache_get (now wb) (''branches:'' @ owner @ ''/'' @ repo) (cache wb)) = None
     \<and> fetchAllPages upb (''/repos/'' @ owner @ ''/'' @ repo @ ''/branches'')
           (wb\<lparr>cache := snd (cache_get (now wb) (''branches:'' @ owner @ ''/'' @ repo) (cache wb))\<rparr>)
         = Some (Inr branches, wb2)
     \<longrightarrow> (\<exists>items. returned (getRepositoryBranches upb up_commit arrival owner repo wb)
                      = Some (Inr (Items items))
           \<and> map item_id items =
               map (\<lambda>r. ''branch-'' @ owner @ ''-'' @ repo @ ''-'' @ branch_name r) branches
           \<and> (distinct (map branch_name branches) \<longrightarrow> distinct (map item_id items))))"
proof (intro conjI impI)
  assume "fst (cache_get (now wi) (''issues:'' @ owner @ ''/'' @ repo) (cache wi)) = None
     \<and> fetchAllPages upi (''/repos/'' @ owner @ ''/'' @ repo @ ''/issues?state=all'')
           (wi\<lparr>cache := snd (cache_get (now wi) (''issues:'' @ owner @ ''/'' @ repo) (cache wi))\<rparr>)
         = Some (Inr issues, wi2)"
  then show "\<exists>items. returned (getRepositoryIssues upi owner repo wi) = Some (Inr (Items items))
           \<and> map item_id items =
               map (\<lambda>r. ''issue-'' @ owner @ ''-'' @ repo @ ''-'' @ show_int (issue_id r))
                 (filter (\<lambda>r. \<not> pull_request_truthy r) issues)
           \<and> (distinct (map issue_id issues) \<longrightarrow> distinct (map item_id items))"
    by (elim conjE) (rule issue_ids)
next
  assume "fst (cache_get (now wp) (''pulls:'' @ owner @ ''/'' @ repo) (cache wp)) = None
     \<and> fetchAllPages upp (''/repos/'' @ owner @ ''/'' @ repo @ ''/pulls?state=all'')
           (wp\<lparr>cache := snd (cache_get (now wp) (''pulls:'' @ owner @ ''/'' @ repo) (cache wp))\<rparr>)
         = Some (Inr pulls, wp2)"
  then show "\<exists>items. returned (getRepositoryPulls upp owner repo wp) = Some (Inr (Items items))
           \<and> map item_id items =
               map (\<lambda>r. ''pr-'' @ owner @ ''-'' @ repo @ ''-'' @ show_int (pr_id r)) pulls
           \<and> (distinct (map pr_id pulls) \<longrightarrow> distinct (map item_id items))"
    by (elim conjE) (rule pull_ids)
next
  assume "fst (cache_get (now wb) (''branches:'' @ owner @ ''/'' @ repo) (cache wb)) = None
     \<and> fetchAllPages upb (''/repos/'' @ owner @ ''/'' @ repo @ ''/branches'')
           (wb\<lparr>cache := snd (cache_get (now wb) (''branches:'' @ owner @ ''/'' @ repo) (cache wb))\<rparr>)
         = Some (Inr branches, wb2)"
  then show "\<exists>items. returned (getRepositoryBranches upb up_commit arrival owner repo wb)
                      = Some (Inr (Items items))
           \<and> map item_id items =
               map (\<lambda>r. ''branch-'' @ owner @ ''-'' @ repo @ ''-'' @ branch_name r) branches
           \<and> (distinct (map branch_name branches) \<longrightarrow> distinct (map item_id items))"
    by (elim conjE) (rule branch_ids)
qed

theorem item_ids_witness:
  "(\<exists>items. returned (getRepositoryIssues
        (steady_upstream (plain_response (Some
           [an_issue 101 None,
            an_issue 102 (Some (JObject [(''url'', JString ''https://api.github.com/repos/acme/app/pulls/6'')])),
            an_issue 103 None])))
        ''acme'' ''app'' fresh_world) = Some (Inr (Items items))
      \<and> map item_id items = [''issue-acme-app-101'', ''issue-acme-app-103'']
      \<and> distinct (map item_id items))
   \<and> (\<exists>items. returned (getRepositoryPulls
        (steady_upstream (plain_response (Some [a_pull_numbered 9001, a_pull_numbered 9002])))
        ''acme'' ''app'' fresh_world) = Some (Inr (Items items))
      \<and> map item_id items = [''pr-acme-app-9001'', ''pr-acme-app-9002'']
      \<and> distinct (map item_id items))
   \<and> (\<exists>items. returned (getRepositoryBranches
        (steady_upstream (plain_response (Some
           [a_branch ''main'' ''aaa1'', a_branch ''dev'' ''bbb2'', a_branch ''fix'' ''ccc3''])))
        commits_upstream [2, 0, 1] ''acme'' ''app'' fresh_world) = Some (Inr (Items items))
      \<and> map item_id items = [''branch-acme-app-main'', ''branch-acme-app-dev'', ''branch-acme-app-fix'']
      \<and> distinct (map item_id items))"
proof -
  let ?is = "[an_issue 101 None,
            an_issue 102 (Some (JObject [(''url'', JString ''https://api.github.com/repos/acme/app/pulls/6'')])),
            an_issue 103 None]"
  let ?ps = "[a_pull_numbered 9001, a_pull_numbered 9002]"
  let ?bs = "[a_branch ''main'' ''aaa1'', a_branch ''dev'' ''bbb2'', a_branch ''fix'' ''ccc3'']"
  have n: "show_int 101 = ''101''" "show_int 103 = ''103''" "show_int 9001 = ''9001''"
      "show_int 9002 = ''9002''"
    by (simp_all add: show_int_def show_nat.simps digit_char_def)
  have mi: "fst (cache_get (now fresh_world) (''issues:'' @ ''acme'' @ ''/'' @ ''app'') (cache fresh_world)) = None
     \<and> fetchAllPages (steady_upstream (plain_response (Some ?is)))
          (''/repos/'' @ ''acme'' @ ''/'' @ ''app'' @ ''/issues?state=all'')
          (fresh_world\<lparr>cache := snd (cache_get (now fresh_world) (''issues:'' @ ''acme'' @ ''/'' @ ''app'')
             (cache fresh_world))\<rparr>)
        = Some (Inr ?is, fresh_world\<lparr>calls := calls fresh_world
             @ [resolve_url (page_url (''/repos/'' @ ''acme'' @ ''/'' @ ''app'' @ ''/issues?state=all'') 1)],
             now := 50000\<rparr>)"
    by (rule conjI, simp add: fresh_world_miss, rule listed_steady, simp)
  have mp: "fst (cache_get (now fresh_world) (''pulls:'' @ ''acme'' @ ''/'' @ ''app'') (cache fresh_world)) = None
     \<and> fetchAllPages (steady_upstream (plain_response (Some ?ps)))
          (''/repos/'' @ ''acme'' @ ''/'' @ ''app'' @ ''/pulls?state=all'')
          (fresh_world\<lparr>cache := snd (cache_get (now fresh_world) (''pulls:'' @ ''acme'' @ ''/'' @ ''app'')
             (cache fresh_world))\<rparr>)
        = Some (Inr ?ps, fresh_world\<lparr>calls := calls fresh_world
             @ [resolve_url (page_url (''/repos/'' @ ''acme'' @ ''/'' @ ''app'' @ ''/pulls?state=all'') 1)],
             now := 50000\<rparr>)"
    by (rule conjI, simp add: fresh_world_miss, rule listed_steady, simp)
  have mb: "fst (cache_get (now fresh_world) (''branches:'' @ ''acme'' @ ''/'' @ ''app'') (cache fresh_world)) = None
     \<and> fetchAllPages (steady_upstream (plain_response (Some ?bs)))
          (''/repos/'' @ ''acme'' @ ''/'' @ ''app'' @ ''/branches'')
          (fresh_world\<lparr>cache := snd (cache_get (now fresh_world) (''branches:'' @ ''acme'' @ ''/'' @ ''app'')
             (cache fresh_world))\<rparr>)
        = Some (Inr ?bs, fresh_world\<lparr>calls := calls fresh_world
             @ [resolve_url (page_url (''/repos/'' @ ''acme'' @ ''/'' @ ''app'' @ ''/branches'') 1)],
             now := 50000\<rparr>)"
    by (rule conjI, simp add: fresh_world_miss, rule listed_steady, simp)
  note all = item_ids [where owner = "''acme''" and repo = "''app''"
      and wi = fresh_world and upi = "steady_upstream (plain_response (Some ?is))" and issues = ?is
      and wp = fresh_world and upp = "steady_upstream (plain_response (Some ?ps))" and pulls = ?ps
      and wb = fresh_world and upb = "steady_upstream (plain_response (Some ?bs))" and branches = ?bs
      and up_commit = commits_upstream and arrival = "[2, 0, 1]"]
  from all [THEN conjunct1, rule_format, OF mi]
  have i: "\<exists>items. returned (getRepositoryIssues (steady_upstream (plain_response (Some ?is)))
        ''acme'' ''app'' fresh_world) = Some (Inr (Items items))
      \<and> map item_id items = [''issue-acme-app-101'', ''issue-acme-app-103'']
      \<and> distinct (map item_id items)"
    by (simp add: an_issue_def pull_request_truthy_def n)
  from all [THEN conjunct2, THEN conjunct1, rule_format, OF mp]
  have p: "\<exists>items. returned (getRepositoryPulls (steady_upstream (plain_response (Some ?ps)))
        ''acme'' ''app'' fresh_world) = Some (Inr (Items items))
      \<and> map item_id items = [''pr-acme-app-9001'', ''pr-acme-app-9002'']
      \<and> distinct (map item_id items)"
    by (simp add: a_pull_numbered_def a_pull_def n)
  from all [THEN conjunct2, THEN conjunct2, rule_format, OF mb]
  have b: "\<exists>items. returned (getRepositoryBranches (steady_upstream (plain_response (Some ?bs)))
        commits_upstream [2, 0, 1] ''acme'' ''app'' fresh_world) = Some (Inr (Items items))
      \<and> map item_id items = [''branch-acme-app-main'', ''branch-acme-app-dev'', ''branch-acme-app-fix'']
      \<and> distinct (map item_id items)"
    by (simp add: a_branch_def)
  from i p b show ?thesis by (intro conjI)
qed

subsection \<open>The cache after a failed call\<close>

lemma request_cache: "cache (snd (request up endpoint w)) = cache w"
  by (simp add: request_def Let_def split: option.splits fetched.splits)

lemma fetch_loop_cache:
  "fetch_loop up endpoint results page w = Some res \<Longrightarrow> cache (snd res) = cache w"
proof (induction rule: fetch_loop.raw_induct [rotated 1, consumes 1])
  case (1 loop up endpoint results page w res)
  obtain q w1 where q: "request up (page_url endpoint page) w = (q, w1)"
    by (cases "request up (page_url endpoint page) w")
  then have c: "cache w1 = cache w"
    using request_cache [of up "page_url endpoint page" w] by simp
  show ?case
  proof (cases q)
    case (Inl e)
    with 1(2) q c show ?thesis by auto
  next
    case (Inr d)
    show ?thesis
    proof (cases "length d < perPage")
      case True
      with 1(2) q c Inr show ?thesis by auto
    next
      case False
      with 1(2) q Inr have "loop up endpoint (results @ d) (page + 1) w1 = Some res"
        by (simp add: Let_def)
      from 1(1) [OF this] c show ?thesis by simp
    qed
  qed
qed

lemma fetchAllPages_cache:
  "fetchAllPages up endpoint w = Some (r, w') \<Longrightarrow> cache w' = cache w"
  unfolding fetchAllPages_def by (drule fetch_loop_cache) simp

lemma cache_get_miss:
  "fst (cache_get t key store) = None \<Longrightarrow>
   snd (cache_get t key store) = store(key := None)
   \<and> (case store key of None \<Rightarrow> True | Some entry \<Rightarrow> t > expiresAt entry)"
  by (auto simp: cache_get_def split: option.splits if_splits)

lemma getOrganizationRepos_fails:
  assumes "getOrganizationRepos up org w = Some (Inl e, w')"
  shows "cache w' = (cache w)(''repos:'' @ org := None)
     \<and> (case cache w (''repos:'' @ org) of None \<Rightarrow> True | Some entry \<Rightarrow> now w > expiresAt entry)"
proof -
  let ?key = "''repos:'' @ org"
  let ?w1 = "w\<lparr>cache := snd (cache_get (now w) ?key (cache w))\<rparr>"
  from assms have miss: "fst (cache_get (now w) ?key (cache w)) = None"
    by (auto simp: getOrganizationRepos_def Let_def split: option.splits)
  with assms have "fetchAllPages up (''/orgs/'' @ org @ ''/repos'') ?w1 = Some (Inl e, w')"
    by (auto simp: getOrganizationRepos_def Let_def split: option.splits sum.splits prod.splits)
  then have "cache w' = cache ?w1" by (rule fetchAllPages_cache)
  with cache_get_miss [OF miss] show ?thesis by simp
qed

lemma getRepositoryIssues_fails:
  assumes "getRepositoryIssues up owner repo w = Some (Inl e, w')"
  shows "cache w' = (cache w)(''issues:'' @ owner @ ''/'' @ repo := None)
     \<and> (case cache w (''issues:'' @ owner @ ''/'' @ repo) of
           None \<Rightarrow> True | Some entry \<Rightarrow> now w > expiresAt entry)"
proof -
  let ?key = "''issues:'' @ owner @ ''/'' @ repo"
  let ?w1 = "w\<lparr>cache := snd (cache_get (now w) ?key (cache w))\<rparr>"
  from assms have miss: "fst (cache_get (now w) ?key (cache w)) = None"
    by (auto simp: getRepositoryIssues_def Let_def split: option.splits)
  with assms have "fetchAllPages up (''/repos/'' @ owner @ ''/'' @ repo @ ''/issues?state=all'') ?w1
      = Some (Inl e, w')"
    by (auto simp: getRepositoryIssues_def Let_def split: option.splits sum.splits prod.splits)
  then have "cache w' = cache ?w1" by (rule fetchAllPages_cache)
  with cache_get_miss [OF miss] show ?thesis by simp
qed

lemma getRepositoryPulls_fails:
  assumes "getRepositoryPulls up owner repo w = Some (Inl e, w')"
  shows "cache w' = (cache w)(''pulls:'' @ owner @ ''/'' @ repo := None)
     \<and> (case cache w (''pulls:'' @ owner @ ''/'' @ repo) of
           None \<Rightarrow> True | Some entry \<Rightarrow> now w > expiresAt entry)"
proof -
  let ?key = "''pulls:'' @ owner @ ''/'' @ repo"
  let ?w1 = "w\<lparr>cache := snd (cache_get (now w) ?key (cache w))\<rparr>"
  from assms have miss: "fst (cache_get (now w) ?key (cache w)) = None"
    by (auto simp: getRepositoryPulls_def Let_def split: option.splits)
  with assms have "fetchAllPages up (''/repos/'' @ owner @ ''/'' @ repo @ ''/pulls?state=all'') ?w1
      = Some (Inl e, w')"
    by (auto simp: getRepositoryPulls_def Let_def split: option.splits sum.splits prod.splits)
  then have "cache w' = cache ?w1" by (rule fetchAllPages_cache)
  with cache_get_miss [OF miss] show ?thesis by simp
qed

lemma getRepositoryBranches_fails:
  assumes "getRepositoryBranches up up_commit arrival owner repo w = Some (Inl e, w')"
  shows "cache w' = (cache w)(''branches:'' @ owner @ ''/'' @ repo := None)
     \<and> (case cache w (''branches:'' @ owner @ ''/'' @ repo) of
           None \<Rightarrow> True | Some entry \<Rightarrow> now w > expiresAt entry)"
proof -
  let ?key = "''branches:'' @ owner @ ''/'' @ repo"
  let ?w1 = "w\<lparr>cache := snd (cache_get (now w) ?key (cache w))\<rparr>"
  from assms have miss: "fst (cache_get (now w) ?key (cache w)) = None"
    by (auto simp: getRepositoryBranches_def Let_def split: option.splits)
  with assms have "fetchAllPages up (''/repos/'' @ owner @ ''/'' @ repo @ ''/branches'') ?w1
      = Some (Inl e, w')"
    by (auto simp: getRepositoryBranches_def Let_def split: option.splits sum.splits prod.splits)
  then have "cache w' = cache ?w1" by (rule fetchAllPages_cache)
  with cache_get_miss [OF miss] show ?thesis by simp
qed

lemma fetchAllPages_refused:
  assumes "rate_limit_check w = None"
  shows "\<exists>w'. fetchAllPages (refusing :: 'a list upstream) endpoint w
           = Some (Inl (UpstreamError ''GitHub API error: API rate limit exceeded''), w')"
proof -
  have "fst (request (refusing :: 'a list upstream) (page_url endpoint 1) w)
      = Inl (UpstreamError ''GitHub API error: API rate limit exceeded'')"
    using assms
    by (simp add: request_def refusing_def steady_upstream_def Let_def settle_def error_response_def)
  then obtain w' where "request (refusing :: 'a list upstream) (page_url endpoint 1) w
      = (Inl (UpstreamError ''GitHub API error: API rate limit exceeded''), w')"
    by (metis prod.collapse)
  then have "fetchAllPages (refusing :: 'a list upstream) endpoint w
      = Some (Inl (UpstreamError ''GitHub API error: API rate limit exceeded''), w')"
    by (rule fetchAllPages_first_fails)
  then show ?thesis ..
qed

lemma rate_limit_check_cache [simp]: "rate_limit_check (w\<lparr>cache := c\<rparr>) = rate_limit_check w"
  by (simp add: rate_limit_check_def)

lemma stale_world_check: "rate_limit_check stale_world = None"
  by (simp add: stale_world_def rate_limit_check_def fresh_world_def initial_rateLimitInfo_def)

lemma stale_world_miss:
  "fst (cache_get (now stale_world) ''issues:acme/app'' (cache stale_world)) = None"
  by (simp add: stale_world_def cache_get_def)

lemma getOrganizationRepos_refused:
  assumes "rate_limit_check w = None"
    and "fst (cache_get (now w) (''repos:'' @ org) (cache w)) = None"
  shows "\<exists>w'. getOrganizationRepos refusing org w
           = Some (Inl (UpstreamError ''GitHub API error: API rate limit exceeded''), w')"
proof -
  from assms(1) have "rate_limit_check (w\<lparr>cache := snd (cache_get (now w) (''repos:'' @ org) (cache w))\<rparr>) = None"
    by simp
  from fetchAllPages_refused [OF this] obtain w' where
    "fetchAllPages (refusing :: GitHubRepository list upstream) (''/orgs/'' @ org @ ''/repos'')
       (w\<lparr>cache := snd (cache_get (now w) (''repos:'' @ org) (cache w))\<rparr>)
     = Some (Inl (UpstreamError ''GitHub API error: API rate limit exceeded''), w')"
    by blast
  with assms(2) show ?thesis
    by (simp add: getOrganizationRepos_def Let_def)
qed

lemma getRepositoryIssues_refused:
  assumes "rate_limit_check w = None"
    and "fst (cache_get (now w) (''issues:'' @ owner @ ''/'' @ repo) (cache w)) = None"
  shows "\<exists>w'. getRepositoryIssues refusing owner repo w
           = Some (Inl (UpstreamError ''GitHub API error: API rate limit exceeded''), w')"
proof -
  from assms(1) have "rate_limit_check
      (w\<lparr>cache := snd (cache_get (now w) (''issues:'' @ owner @ ''/'' @ repo) (cache w))\<rparr>) = None"
    by simp
  from fetchAllPages_refused [OF this] obtain w' where
    "fetchAllPages (refusing :: GitHubIssue list upstream) (''/repos/'' @ owner @ ''/'' @ repo @ ''/issues?state=all'')
       (w\<lparr>cache := snd (cache_get (now w) (''issues:'' @ owner @ ''/'' @ repo) (cache w))\<rparr>)
     = Some (Inl (UpstreamError ''GitHub API error: API rate limit exceeded''), w')"
    by blast
  with assms(2) show ?thesis
    by (simp add: getRepositoryIssues_def Let_def)
qed

lemma getRepositoryPulls_refused:
  assumes "rate_limit_check w = None"
    and "fst (cache_get (now w) (''pulls:'' @ owner @ ''/'' @ repo) (cache w)) = None"
  shows "\<exists>w'. getRepositoryPulls refusing owner repo w
           = Some (Inl (UpstreamError ''GitHub API error: API rate limit exceeded''), w')"
proof -
  from assms(1) have "rate_limit_check
      (w\<lparr>cache := snd (cache_get (now w) (''pulls:'' @ owner @ ''/'' @ repo) (cache w))\<rparr>) = None"
    by simp
  from fetchAllPages_refused [OF this] obtain w' where
    "fetchAllPages (refusing :: GitHubPullRequest list upstream) (''/repos/'' @ owner @ ''/'' @ repo @ ''/pulls?state=all'')
       (w\<lparr>cache := snd (cache_get (now w) (''pulls:'' @ owner @ ''/'' @ repo) (cache w))\<rparr>)
     = Some (Inl (UpstreamError ''GitHub API error: API rate limit exceeded''), w')"
    by blast
  with assms(2) show ?thesis
    by (simp add: getRepositoryPulls_def Let_def)
qed

lemma getRepositoryBranches_refused:
  assumes "rate_limit_check w = None"
    and "fst (cache_get (now w) (''branches:'' @ owner @ ''/'' @ repo) (cache w)) = None"
  shows "\<exists>w'. getRepositoryBranches refusing up_commit arrival owner repo w
           = Some (Inl (UpstreamError ''GitHub API error: API rate limit exceeded''), w')"
proof -
  from assms(1) have "rate_limit_check
      (w\<lparr>cache := snd (cache_get (now w) (''branches:'' @ owner @ ''/'' @ repo) (cache w))\<rparr>) = None"
    by simp
  from fetchAllPages_refused [OF this] obtain w' where
    "fetchAllPages (refusing :: GitHubBranch list upstream) (''/repos/'' @ owner @ ''/'' @ repo @ ''/branches'')
       (w\<lparr>cache := snd (cache_get (now w) (''branches:'' @ owner @ ''/'' @ repo) (cache w))\<rparr>)
     = Some (Inl (UpstreamError ''GitHub API error: API rate limit exceeded''), w')"
    by blast
  with assms(2) show ?thesis
    by (simp add: getRepositoryBranches_def Let_def)
qed

text \<open>
  C10, amended. When a call of \<open>getOrganizationRepos\<close>, \<open>getRepositoryIssues\<close>,
  \<open>getRepositoryPulls\<close> or \<open>getRepositoryBranches\<close> fails, with whatever error, nothing has
  been written to the cache: the cache it leaves is the one it found with the requested
  key's entry removed, so every other key is as before and the requested key has no
  entry. An entry found under the requested key had expired (an unexpired one would have
  been returned), and the lookup at the start of the call has deleted it; without such
  an entry the cache is unchanged.
\<close>

theorem failed_call_cache:
  "(getOrganizationRepos upr org w = Some (Inl e, w')
      \<longrightarrow> cache w' = (cache w)(''repos:'' @ org := None)
          \<and> (case cache w (''repos:'' @ org) of
                None \<Rightarrow> True | Some entry \<Rightarrow> now w > expiresAt entry))
   \<and> (getRepositoryIssues upi owner repo w = Some (Inl e, w')
      \<longrightarrow> cache w' = (cache w)(''issues:'' @ owner @ ''/'' @ repo := None)
          \<and> (case cache w (''issues:'' @ owner @ ''/'' @ repo) of
                None \<Rightarrow> True | Some entry \<Rightarrow> now w > expiresAt entry))
   \<and> (getRepositoryPulls upp owner repo w = Some (Inl e, w')
      \<longrightarrow> cache w' = (cache w)(''pulls:'' @ owner @ ''/'' @ repo := None)
          \<and> (case cache w (''pulls:'' @ owner @ ''/'' @ repo) of
                None \<Rightarrow> True | Some entry \<Rightarrow> now w > expiresAt entry))
   \<and> (getRepositoryBranches upb up_commit arrival owner repo w = Some (Inl e, w')
      \<longrightarrow> cache w' = (cache w)(''branches:'' @ owner @ ''/'' @ repo := None)
          \<and> (case cache w (''branches:'' @ owner @ ''/'' @ repo) of
                None \<Rightarrow> True | Some entry \<Rightarrow> now w > expiresAt entry))"
  using getOrganizationRepos_fails [of upr org w e w']
    getRepositoryIssues_fails [of upi owner repo w e w']
    getRepositoryPulls_fails [of upp owner repo w e w']
    getRepositoryBranches_fails [of upb up_commit arrival owner repo w e w']
  by blast

theorem failed_call_cache_witness:
  "returned (getOrganizationRepos refusing ''acme'' fresh_world)
     = Some (Inl (UpstreamError ''GitHub API error: API rate limit exceeded''))
   \<and> entry_left (getOrganizationRepos refusing ''acme'' fresh_world) ''repos:acme'' = Some None
   \<and> returned (getRepositoryIssues refusing ''acme'' ''app'' stale_world)
     = Some (Inl (UpstreamError ''GitHub API error: API rate limit exceeded''))
   \<and> entry_left (getRepositoryIssues refusing ''acme'' ''app'' stale_world) ''issues:acme/app''
     = Some None
   \<and> returned (getRepositoryPulls refusing ''acme'' ''app'' fresh_world)
     = Some (Inl (UpstreamError ''GitHub API error: API rate limit exceeded''))
   \<and> entry_left (getRepositoryPulls refusing ''acme'' ''app'' fresh_world) ''pulls:acme/app''
     = Some None
   \<and> returned (getRepositoryBranches refusing commits_upstream [] ''acme'' ''app'' fresh_world)
     = Some (Inl (UpstreamError ''GitHub API error: API rate limit exceeded''))
   \<and> entry_left (getRepositoryBranches refusing commits_upstream [] ''acme'' ''app'' fresh_world)
        ''branches:acme/app'' = Some None"
proof -
  let ?E = "UpstreamError ''GitHub API error: API rate limit exceeded''"
  obtain wr where r: "getOrganizationRepos refusing ''acme'' fresh_world = Some (Inl ?E, wr)"
    using getOrganizationRepos_refused [OF fresh_world_check, of "''acme''"]
    by (auto simp: fresh_world_miss)
  obtain wi where i: "getRepositoryIssues refusing ''acme'' ''app'' stale_world = Some (Inl ?E, wi)"
    using getRepositoryIssues_refused [OF stale_world_check, of "''acme''" "''app''"] stale_world_miss
    by auto
  obtain wp where p: "getRepositoryPulls refusing ''acme'' ''app'' fresh_world = Some (Inl ?E, wp)"
    using getRepositoryPulls_refused [OF fresh_world_check, of "''acme''" "''app''"]
    by (auto simp: fresh_world_miss)
  obtain wb where b: "getRepositoryBranches refusing commits_upstream [] ''acme'' ''app'' fresh_world
      = Some (Inl ?E, wb)"
    using getRepositoryBranches_refused [OF fresh_world_check, of "''acme''" "''app''"]
    by (auto simp: fresh_world_miss)
  from failed_call_cache [of refusing "''acme''" fresh_world ?E wr, THEN conjunct1, rule_format, OF r]
  have 1: "cache wr ''repos:acme'' = None" by simp
  from failed_call_cache [where upi = refusing and owner = "''acme''" and repo = "''app''"
      and w = stale_world and e = ?E and w' = wi, THEN conjunct2, THEN conjunct1, rule_format, OF i]
  have 2: "cache wi ''issues:acme/app'' = None" by simp
  from failed_call_cache [where upp = refusing and owner = "''acme''" and repo = "''app''"
      and w = fresh_world and e = ?E and w' = wp,
      THEN conjunct2, THEN conjunct2, THEN conjunct1, rule_format, OF p]
  have 3: "cache wp ''pulls:acme/app'' = None" by simp
  from failed_call_cache [where upb = refusing and up_commit = commits_upstream and arrival = "[]"
      and owner = "''acme''" and repo = "''app''" and w = fresh_world and e = ?E and w' = wb,
      THEN conjunct2, THEN conjunct2, THEN conjunct2, rule_format, OF b]
  have 4: "cache wb ''branches:acme/app'' = None" by simp
  from r i p b 1 2 3 4 show ?thesis
    by (simp add: returned_def entry_left_def)
qed

text \<open>
  C10 as stated fails when the cache holds an expired entry for the requested key: the
  call fails, and the entry that was in the cache before the call is gone after it.
\<close>

theorem expired_entry_counterexample:
  "cache stale_world ''issues:acme/app'' = Some \<lparr>data = Items [], expiresAt = 0\<rparr>
   \<and> now stale_world = 1
   \<and> returned (getRepositoryIssues refusing ''acme'' ''app'' stale_world)
       = Some (Inl (UpstreamError ''GitHub API error: API rate limit exceeded''))
   \<and> entry_left (getRepositoryIssues refusing ''acme'' ''app'' stale_world) ''issues:acme/app''
       = Some None"
proof -
  let ?E = "UpstreamError ''GitHub API error: API rate limit exceeded''"
  obtain wi where i: "getRepositoryIssues refusing ''acme'' ''app'' stale_world = Some (Inl ?E, wi)"
    using getRepositoryIssues_refused [OF stale_world_check, of "''acme''" "''app''"] stale_world_miss
    by auto
  from getRepositoryIssues_fails [OF i] have "cache wi ''issues:acme/app'' = None"
    by simp
  with i show ?thesis
    by (simp add: returned_def entry_left_def stale_world_def)
qed

end
